theory Spec2Isabelle
  imports Main "HOL-Library.Char_ord" "HOL-Library.List_Lexorder" "HOL-Library.Multiset"
begin

section \<open>Strings, indexing and paths\<close>

text \<open>
  Go strings are byte sequences; they are modelled as \<open>string\<close> (a list of 8-bit
  characters). Comparison of strings is bytewise lexicographic, which is the order
  that \<open>HOL-Library.Char_ord\<close> and \<open>HOL-Library.List_Lexorder\<close> put on \<open>char list\<close>.
\<close>

datatype go_panic = IndexOutOfRange

text \<open>\<open>s[i]\<close>: a run-time panic when \<open>i\<close> is outside \<open>0 .. len(s)-1\<close>.\<close>

definition byte_at :: "string \<Rightarrow> int \<Rightarrow> go_panic + char" where
  "byte_at s i = (if 0 \<le> i \<and> i < int (length s) then Inr (s ! nat i) else Inl IndexOutOfRange)"

text \<open>\<open>strings.HasPrefix\<close>.\<close>

definition HasPrefix :: "string \<Rightarrow> string \<Rightarrow> bool" where
  "HasPrefix s p = (take (length p) s = p)"

text \<open>
  \<open>path.Clean\<close> and \<open>path.Join\<close> of the Go standard library, on the elements of a
  path: empty elements and \<open>.\<close> are dropped, \<open>..\<close> removes the element before it
  (at the root it is dropped, in a relative path a leading run of \<open>..\<close> is kept),
  and the empty result is \<open>.\<close>.
\<close>

fun split_slash :: "string \<Rightarrow> string list" where
  "split_slash [] = [[]]"
| "split_slash (c # cs) =
     (if c = CHR ''/'' then [] # split_slash cs
      else (case split_slash cs of [] \<Rightarrow> [[c]] | e # es \<Rightarrow> (c # e) # es))"

fun join_slash :: "string list \<Rightarrow> string" where
  "join_slash [] = []"
| "join_slash [e] = e"
| "join_slash (e # es) = e @ ''/'' @ join_slash es"

fun clean_elems :: "bool \<Rightarrow> string list \<Rightarrow> string list \<Rightarrow> string list" where
  "clean_elems rooted out [] = out"
| "clean_elems rooted out (e # es) =
     (if e = [] \<or> e = ''.'' then clean_elems rooted out es
      else if e = ''..'' then
        (if out \<noteq> [] \<and> last out \<noteq> ''..'' then clean_elems rooted (butlast out) es
         else if rooted then clean_elems rooted out es
         else clean_elems rooted (out @ [''..'']) es)
      else clean_elems rooted (out @ [e]) es)"

definition path_Clean :: "string \<Rightarrow> string" where
  "path_Clean p =
     (if p = [] then ''.''
      else let rooted = (hd p = CHR ''/'');
               s = (if rooted then ''/'' else []) @ join_slash (clean_elems rooted [] (split_slash p))
           in if s = [] then ''.'' else s)"

text \<open>The loop of \<open>path.Join\<close> that fills the buffer, then the cleaning.\<close>

fun join_buf :: "string \<Rightarrow> string list \<Rightarrow> string" where
  "join_buf buf [] = buf"
| "join_buf buf (e # es) =
     (if buf = [] \<and> e = [] then join_buf buf es
      else join_buf ((if buf = [] then buf else buf @ ''/'') @ e) es)"

definition path_Join :: "string list \<Rightarrow> string" where
  "path_Join elem = (if concat elem = [] then [] else path_Clean (join_buf [] elem))"

text \<open>\<open>filepath.Join\<close> on a host whose path separator is \<open>/\<close>.\<close>

definition filepath_Join :: "string list \<Rightarrow> string" where
  "filepath_Join elem = path_Join elem"

text \<open>
  \<open>filepath.Ext\<close>: the suffix beginning at the last dot of the last path element,
  empty when that element has no dot. The scan runs from the end of the path.
\<close>

fun ext_scan :: "string \<Rightarrow> string \<Rightarrow> string" where
  "ext_scan [] acc = []"
| "ext_scan (c # cs) acc =
     (if c = CHR ''/'' then []
      else if c = CHR ''.'' then c # acc
      else ext_scan cs (c # acc))"

definition filepath_Ext :: "string \<Rightarrow> string" where
  "filepath_Ext p = ext_scan (rev p) []"

section \<open>Times and their formats\<close>

text \<open>
  A \<open>time.Time\<close> is modelled by its Unix time in seconds (the formats used here print
  no fraction of a second). \<open>appendInt\<close> is the library's zero-padded decimal;
  \<open>civil_from_days\<close> turns a day count since 1970-01-01 into year, month and day of
  the proleptic Gregorian calendar.
\<close>

definition digit :: "nat \<Rightarrow> char" where
  "digit n = ''0123456789'' ! (n mod 10)"

fun itoa :: "nat \<Rightarrow> string" where
  "itoa n = (if n < 10 then [digit n] else itoa (n div 10) @ [digit n])"

declare itoa.simps [simp del]

definition appendInt :: "int \<Rightarrow> nat \<Rightarrow> string" where
  "appendInt x width =
     (let ds = itoa (nat \<bar>x\<bar>)
      in (if x < 0 then ''-'' else []) @ replicate (width - length ds) (CHR ''0'') @ ds)"

definition civil_from_days :: "int \<Rightarrow> int \<times> int \<times> int" where
  "civil_from_days days =
     (let z = days + 719468;
          era = z div 146097;
          doe = z mod 146097;
          yoe = (doe - doe div 1460 + doe div 36524 - doe div 146096) div 365;
          doy = doe - (365 * yoe + yoe div 4 - yoe div 100);
          mp = (5 * doy + 2) div 153;
          d = doy - (153 * mp + 2) div 5 + 1;
          m = (if mp < 10 then mp + 3 else mp - 9);
          y = yoe + era * 400
      in (if m \<le> 2 then y + 1 else y, m, d))"

definition shortDayNames :: "string list" where
  "shortDayNames = [''Sun'', ''Mon'', ''Tue'', ''Wed'', ''Thu'', ''Fri'', ''Sat'']"

definition shortMonthNames :: "string list" where
  "shortMonthNames = [''Jan'', ''Feb'', ''Mar'', ''Apr'', ''May'', ''Jun'',
                      ''Jul'', ''Aug'', ''Sep'', ''Oct'', ''Nov'', ''Dec'']"

definition clock :: "int \<Rightarrow> string" where
  "clock t =
     (let s = t mod 86400
      in appendInt (s div 3600) 2 @ '':'' @ appendInt (s mod 3600 div 60) 2 @ '':'' @
         appendInt (s mod 60) 2)"

text \<open>\<open>t.UTC().Format(http.TimeFormat)\<close>, the layout \<open>Mon, 02 Jan 2006 15:04:05 GMT\<close>.\<close>

definition Format_TimeFormat :: "int \<Rightarrow> string" where
  "Format_TimeFormat t =
     (case civil_from_days (t div 86400) of (y, m, d) \<Rightarrow>
        shortDayNames ! nat ((t div 86400 + 4) mod 7) @ '', '' @ appendInt d 2 @ '' '' @
        shortMonthNames ! nat (m - 1) @ '' '' @ appendInt y 4 @ '' '' @ clock t @ '' GMT'')"

text \<open>
  \<open>t.Format("2006-01-02 15:04:05")\<close> for a time whose zone is \<open>offset\<close> seconds east
  of UTC.
\<close>

definition Format_listing :: "int \<Rightarrow> int \<Rightarrow> string" where
  "Format_listing offset t =
     (case civil_from_days ((t + offset) div 86400) of (y, m, d) \<Rightarrow>
        appendInt y 4 @ ''-'' @ appendInt m 2 @ ''-'' @ appendInt d 2 @ '' '' @ clock (t + offset))"

section \<open>The response writer\<close>

text \<open>
  An \<open>http.ResponseWriter\<close>: the header map of the handler, the status code once it is
  committed, and the bytes written to the body. The first \<open>WriteHeader\<close> commits the
  status; a later one is superfluous and leaves it as it is. A \<open>Write\<close> before any
  \<open>WriteHeader\<close> commits status 200.
\<close>

record response =
  header :: "string \<rightharpoonup> string"
  status :: "nat option"
  body :: string

definition fresh :: response where
  "fresh = \<lparr>header = Map.empty, status = None, body = []\<rparr>"

abbreviation StatusOK :: nat where "StatusOK \<equiv> 200"
abbreviation StatusMovedPermanently :: nat where "StatusMovedPermanently \<equiv> 301"
abbreviation StatusForbidden :: nat where "StatusForbidden \<equiv> 403"
abbreviation StatusNotFound :: nat where "StatusNotFound \<equiv> 404"
abbreviation StatusInternalServerError :: nat where "StatusInternalServerError \<equiv> 500"

definition Header_Set :: "response \<Rightarrow> string \<Rightarrow> string \<Rightarrow> response" where
  "Header_Set w k v = w\<lparr>header := (header w)(k \<mapsto> v)\<rparr>"

definition Header_Del :: "response \<Rightarrow> string \<Rightarrow> response" where
  "Header_Del w k = w\<lparr>header := (header w)(k := None)\<rparr>"

definition WriteHeader :: "response \<Rightarrow> nat \<Rightarrow> response" where
  "WriteHeader w code = (case status w of None \<Rightarrow> w\<lparr>status := Some code\<rparr> | Some c \<Rightarrow> w)"

definition Write :: "response \<Rightarrow> string \<Rightarrow> response" where
  "Write w bs =
     (let w' = (case status w of None \<Rightarrow> WriteHeader w StatusOK | Some c \<Rightarrow> w)
      in w'\<lparr>body := body w' @ bs\<rparr>)"

text \<open>\<open>http.Error\<close> and \<open>http.NotFound\<close>.\<close>

definition Error :: "response \<Rightarrow> string \<Rightarrow> nat \<Rightarrow> response" where
  "Error w msg code =
     (let w1 = Header_Del w ''Content-Length'';
          w2 = Header_Set w1 ''Content-Type'' ''text/plain; charset=utf-8'';
          w3 = Header_Set w2 ''X-Content-Type-Options'' ''nosniff'';
          w4 = WriteHeader w3 code
      in Write w4 (msg @ [CHR 0x0A]))"

definition NotFound :: "response \<Rightarrow> response" where
  "NotFound w = Error w ''404 page not found'' StatusNotFound"

section \<open>The file system and the run-time library\<close>

datatype os_error = ErrNotExist | ErrPermission | ErrOther

text \<open>\<open>os.IsNotExist\<close>; \<open>None\<close> is the nil error.\<close>

definition IsNotExist :: "os_error option \<Rightarrow> bool" where
  "IsNotExist err = (err = Some ErrNotExist)"

definition err_of :: "'e + 'a \<Rightarrow> 'e option" where
  "err_of r = (case r of Inl e \<Rightarrow> Some e | Inr v \<Rightarrow> None)"

text \<open>\<open>fs.FileInfo\<close>, with the modification time in Unix seconds.\<close>

record FileInfo =
  Name :: string
  Size :: int
  Mode :: nat
  ModTime :: int
  IsDir :: bool

text \<open>
  An open \<open>http.File\<close>: what \<open>Stat\<close> and \<open>Readdir(-1)\<close> return on it, and the bytes
  that reading it from the start gives (an error for a handle that cannot be read or
  sought, a directory for one).
\<close>

record http_File =
  Stat :: "os_error + FileInfo"
  Readdir :: "os_error + FileInfo list"
  Read :: "os_error + string"

text \<open>
  What the handler asks of its surroundings at the time of a call:
  \<open>Dir_Open root name\<close> is \<open>http.Dir(root).Open(name)\<close>, \<open>os_Open\<close> and \<open>os_Stat\<close>
  are \<open>os.Open\<close> and \<open>os.Stat\<close>, \<open>filepath_Abs\<close> is \<open>filepath.Abs\<close>,
  \<open>TypeByExtension\<close> is the MIME registry of package \<open>mime\<close>, \<open>DetectContentType\<close>
  the sniffing of \<open>net/http\<close>, \<open>Local\<close> the offset in seconds of the local time zone
  at an instant, and the last three are the escapers that \<open>html/template\<close> puts on
  an action in a \<open>title\<close> element, in element text and at the start of a URL in a
  quoted attribute.
\<close>

record runtime =
  Dir_Open :: "string \<Rightarrow> string \<Rightarrow> os_error + http_File"
  os_Open :: "string \<Rightarrow> os_error + http_File"
  os_Stat :: "string \<Rightarrow> os_error + FileInfo"
  filepath_Abs :: "string \<Rightarrow> os_error + string"
  TypeByExtension :: "string \<Rightarrow> string"
  DetectContentType :: "string \<Rightarrow> string"
  Local :: "int \<Rightarrow> int"
  rcdataescaper :: "string \<Rightarrow> string"
  htmlescaper :: "string \<Rightarrow> string"
  urlattrescaper :: "string \<Rightarrow> string"

section \<open>Configuration and construction\<close>

record Config =
  Root :: string
  EnableDirectoryListing :: bool
  IndexFiles :: "string list"
  SPAMode :: bool
  SPAIndex :: string
  ErrorPage404 :: string
  CacheControl :: "string \<rightharpoonup> string"

definition CreateConfig :: Config where
  "CreateConfig =
     \<lparr>Root = ''.'', EnableDirectoryListing = False, IndexFiles = [''index.html'', ''index.htm''],
      SPAMode = False, SPAIndex = ''index.html'', ErrorPage404 = [], CacheControl = Map.empty\<rparr>"

text \<open>
  \<open>StatiqHandler\<close>. The field \<open>root\<close> holds the \<open>http.Dir\<close> that \<open>New\<close> stores, which
  is the root path itself; opening through it is \<open>Dir_Open\<close> at that path.
\<close>

record StatiqHandler =
  root :: string
  rootPath :: string
  enableDirListing :: bool
  indexFiles :: "string list"
  spaMode :: bool
  spaIndex :: string
  errorPage404 :: string
  cacheControl :: "string \<rightharpoonup> string"
  notFoundResponseCode :: nat

definition make_handler :: "string \<Rightarrow> Config \<Rightarrow> nat \<Rightarrow> StatiqHandler" where
  "make_handler rt config code =
     \<lparr>root = rt, rootPath = rt, enableDirListing = EnableDirectoryListing config,
      indexFiles = IndexFiles config, spaMode = SPAMode config, spaIndex = SPAIndex config,
      errorPage404 = ErrorPage404 config, cacheControl = CacheControl config,
      notFoundResponseCode = code\<rparr>"

text \<open>
  The check of the custom 404 page, shared by both copies of \<open>New\<close>: the response
  code for a missing path starts as 404 and becomes 200 when an error page is
  configured; construction fails when that page does not exist.
\<close>

definition check_error_page :: "runtime \<Rightarrow> string \<Rightarrow> Config \<Rightarrow> string + StatiqHandler" where
  "check_error_page rt rootp config =
     (if ErrorPage404 config \<noteq> [] then
        (let errorPagePath = filepath_Join [rootp, ErrorPage404 config]
         in if IsNotExist (err_of (os_Stat rt errorPagePath))
            then Inl (''error page not found: '' @ errorPagePath)
            else Inr (make_handler rootp config StatusOK))
      else Inr (make_handler rootp config StatusNotFound))"

text \<open>
  \<open>New\<close> of the first copy creates a missing root directory; \<open>MkdirAll\<close> gives the
  surroundings after the creation, or its error.
\<close>

definition New :: "runtime \<Rightarrow> (string \<Rightarrow> os_error + runtime) \<Rightarrow> Config \<Rightarrow> string + StatiqHandler" where
  "New rt MkdirAll config =
     (case filepath_Abs rt (Root config) of
        Inl err \<Rightarrow> Inl ''invalid root path''
      | Inr rootp \<Rightarrow>
          (if IsNotExist (err_of (os_Stat rt rootp)) then
             (case MkdirAll rootp of
                Inl err \<Rightarrow> Inl (''failed to create root directory '' @ rootp)
              | Inr rt' \<Rightarrow> check_error_page rt' rootp config)
           else check_error_page rt rootp config))"

text \<open>\<open>New\<close> of the second copy rejects a missing root directory.\<close>

definition New2 :: "runtime \<Rightarrow> Config \<Rightarrow> string + StatiqHandler" where
  "New2 rt config =
     (case filepath_Abs rt (Root config) of
        Inl err \<Rightarrow> Inl ''invalid root path''
      | Inr rootp \<Rightarrow>
          (if IsNotExist (err_of (os_Stat rt rootp))
           then Inl (''root directory does not exist: '' @ rootp)
           else check_error_page rt rootp config))"

section \<open>Requests, redirects and cache headers\<close>

text \<open>
  Of a request the handler reads \<open>r.URL.Path\<close> and \<open>r.URL.RawQuery\<close>. The model is of
  a GET request without conditional and range headers, for which
  \<open>http.ServeContent\<close> answers with status 200 and the whole content.
\<close>

record request =
  URL_Path :: string
  URL_RawQuery :: string

definition Header_Get :: "response \<Rightarrow> string \<Rightarrow> string" where
  "Header_Get w k = (case header w k of None \<Rightarrow> [] | Some v \<Rightarrow> v)"

definition localRedirect :: "response \<Rightarrow> request \<Rightarrow> string \<Rightarrow> response" where
  "localRedirect w r newPath =
     (let q = URL_RawQuery r;
          newPath' = (if q \<noteq> [] then newPath @ ''?'' @ q else newPath);
          w1 = Header_Set w ''Location'' newPath'
      in WriteHeader w1 StatusMovedPermanently)"

definition setCacheHeaders :: "StatiqHandler \<Rightarrow> response \<Rightarrow> FileInfo \<Rightarrow> response" where
  "setCacheHeaders h w d =
     (let ext = filepath_Ext (Name d);
          w1 = (case cacheControl h ext of
                  Some maxAge \<Rightarrow> Header_Set w ''Cache-Control'' maxAge
                | None \<Rightarrow>
                    (case cacheControl h ''*'' of
                       Some maxAge \<Rightarrow> Header_Set w ''Cache-Control'' maxAge
                     | None \<Rightarrow> Header_Set w ''Cache-Control'' ''max-age=86400''))
      in Header_Set w1 ''Last-Modified'' (Format_TimeFormat (ModTime d)))"

text \<open>
  \<open>http.ServeContent\<close> for such a request: \<open>Last-Modified\<close> unless the time is the
  zero time or the Unix epoch, a \<open>Content-Type\<close> from the name's extension or from
  the first 512 bytes when the handler has set none, then the length, status 200
  and the bytes. Content that cannot be sought gives a 500 error.
\<close>

definition ServeContent :: "runtime \<Rightarrow> response \<Rightarrow> string \<Rightarrow> int \<Rightarrow> os_error + string \<Rightarrow> response" where
  "ServeContent rt w name modtime content =
     (let w1 = (if modtime = 0 \<or> modtime = - 62135596800 then w
                else Header_Set w ''Last-Modified'' (Format_TimeFormat modtime))
      in case content of
           Inl err \<Rightarrow> Error w1 ''seeker can't seek'' StatusInternalServerError
         | Inr bytes \<Rightarrow>
             (let w2 = (case header w1 ''Content-Type'' of
                          Some ctype \<Rightarrow> w1
                        | None \<Rightarrow>
                            (let ctype = TypeByExtension rt (filepath_Ext name)
                             in Header_Set w1 ''Content-Type''
                                  (if ctype = [] then DetectContentType rt (take 512 bytes) else ctype)));
                  w3 = Header_Set w2 ''Accept-Ranges'' ''bytes'';
                  w4 = (if Header_Get w3 ''Content-Encoding'' = []
                        then Header_Set w3 ''Content-Length'' (itoa (length bytes)) else w3)
              in Write (WriteHeader w4 StatusOK) bytes))"

text \<open>\<open>serveFile\<close> of the first copy, which also sets the content type.\<close>

definition serveFile :: "runtime \<Rightarrow> StatiqHandler \<Rightarrow> response \<Rightarrow> string \<Rightarrow> response" where
  "serveFile rt h w filePath =
     (case os_Open rt filePath of
        Inl err \<Rightarrow> Error w ''Internal Server Error'' StatusInternalServerError
      | Inr f \<Rightarrow>
          (case Stat f of
             Inl err \<Rightarrow> Error w ''Internal Server Error'' StatusInternalServerError
           | Inr d \<Rightarrow>
               (let w1 = setCacheHeaders h w d;
                    contentType = TypeByExtension rt (filepath_Ext (Name d));
                    w2 = (if contentType \<noteq> [] then Header_Set w1 ''Content-Type'' contentType else w1)
                in ServeContent rt w2 (Name d) (ModTime d) (Read f))))"

text \<open>\<open>serveFile\<close> of the second copy.\<close>

definition serveFile2 :: "runtime \<Rightarrow> StatiqHandler \<Rightarrow> response \<Rightarrow> string \<Rightarrow> response" where
  "serveFile2 rt h w filePath =
     (case os_Open rt filePath of
        Inl err \<Rightarrow> Error w ''Internal Server Error'' StatusInternalServerError
      | Inr f \<Rightarrow>
          (case Stat f of
             Inl err \<Rightarrow> Error w ''Internal Server Error'' StatusInternalServerError
           | Inr d \<Rightarrow> ServeContent rt (setCacheHeaders h w d) (Name d) (ModTime d) (Read f)))"

section \<open>The directory listing\<close>

text \<open>
  The order given to \<open>sort.Slice\<close>: a directory before a file, then by name.
\<close>

definition dirs_less :: "FileInfo \<Rightarrow> FileInfo \<Rightarrow> bool" where
  "dirs_less a b =
     (if IsDir a \<and> \<not> IsDir b then True
      else if \<not> IsDir a \<and> IsDir b then False
      else Name a < Name b)"

text \<open>
  \<open>sort.Slice\<close> is modelled by insertion sort. The library promises an ordering by
  \<open>less\<close> and no stability; where \<open>less\<close> orders the elements totally, as it does
  for entries with different names, every sorting algorithm returns the same slice.
\<close>

fun insert_less :: "('a \<Rightarrow> 'a \<Rightarrow> bool) \<Rightarrow> 'a \<Rightarrow> 'a list \<Rightarrow> 'a list" where
  "insert_less lt x [] = [x]"
| "insert_less lt x (y # ys) = (if lt x y then x # y # ys else y # insert_less lt x ys)"

definition sort_Slice :: "('a \<Rightarrow> 'a \<Rightarrow> bool) \<Rightarrow> 'a list \<Rightarrow> 'a list" where
  "sort_Slice lt xs = foldr (insert_less lt) xs []"

record dirEntry =
  entry_Name :: string
  entry_Size :: int
  entry_Mode :: nat
  entry_ModTime :: int
  entry_IsDir :: bool

definition to_dirEntry :: "FileInfo \<Rightarrow> dirEntry" where
  "to_dirEntry entry =
     \<lparr>entry_Name = Name entry, entry_Size = Size entry, entry_Mode = Mode entry,
      entry_ModTime = ModTime entry, entry_IsDir = IsDir entry\<rparr>"

text \<open>
  The template \<open>dirlist\<close>. Its text is cut at the actions; \<open>text_lines\<close> joins the
  lines of a piece with newlines.
\<close>

fun text_lines :: "string list \<Rightarrow> string" where
  "text_lines [] = []"
| "text_lines [l] = l"
| "text_lines (l # ls) = l @ [CHR 0x0A] @ text_lines ls"

definition tmpl_title :: string where
  \<open>tmpl_title = text_lines
     ['''',
      ''<!DOCTYPE html>'',
      ''<html>'',
      ''<head>'',
      ''    <meta charset="utf-8">'',
      ''    <title>Index of '']\<close>

definition tmpl_style :: string where
  \<open>tmpl_style = text_lines
     [''</title>'',
      ''    <style>'',
      ''        body { font-family: sans-serif; margin: 2em; }'',
      ''        table { border-collapse: collapse; width: 100%; }'',
      ''        th, td { text-align: left; padding: 8px; }'',
      ''        tr:nth-child(even) { background-color: #f2f2f2; }'',
      ''        th { background-color: #4CAF50; color: white; }'',
      ''        a { text-decoration: none; }'',
      ''        a:hover { text-decoration: underline; }'',
      ''    </style>'',
      ''</head>'',
      ''<body>'',
      ''    <h1>Index of '']\<close>

definition tmpl_table :: string where
  \<open>tmpl_table = text_lines
     [''</h1>'',
      ''    <table>'',
      ''        <tr>'',
      ''            <th>Name</th>'',
      ''            <th>Size</th>'',
      ''            <th>Modified</th>'',
      ''        </tr>'',
      ''        '']\<close>

definition tmpl_parent :: string where
  \<open>tmpl_parent = text_lines
     ['''',
      ''        <tr>'',
      ''            <td><a href="../">../</a></td>'',
      ''            <td>-</td>'',
      ''            <td>-</td>'',
      ''        </tr>'',
      ''        '']\<close>

definition tmpl_before_range :: string where
  \<open>tmpl_before_range = text_lines ['''', ''        '']\<close>

definition tmpl_row_open :: string where
  \<open>tmpl_row_open = text_lines ['''', ''        <tr>'', ''            <td><a href="'']\<close>

definition tmpl_row_href_end :: string where
  \<open>tmpl_row_href_end = ''">''\<close>

definition tmpl_row_size :: string where
  \<open>tmpl_row_size = text_lines [''</a></td>'', ''            <td>'']\<close>

definition tmpl_row_time :: string where
  \<open>tmpl_row_time = text_lines [''</td>'', ''            <td>'']\<close>

definition tmpl_row_close :: string where
  \<open>tmpl_row_close = text_lines [''</td>'', ''        </tr>'', ''        '']\<close>

definition tmpl_tail :: string where
  \<open>tmpl_tail = text_lines ['''', ''    </table>'', ''</body>'', ''</html>'', '''']\<close>

text \<open>The body of \<open>{{range .Files}}\<close> for one entry.\<close>

definition tmpl_row :: "runtime \<Rightarrow> dirEntry \<Rightarrow> string" where
  "tmpl_row rt e =
     tmpl_row_open @ urlattrescaper rt (entry_Name e) @ (if entry_IsDir e then ''/'' else []) @
     tmpl_row_href_end @ htmlescaper rt (entry_Name e) @ (if entry_IsDir e then ''/'' else []) @
     tmpl_row_size @
     (if entry_IsDir e then ''-'' else htmlescaper rt (appendInt (entry_Size e) 0) @ '' bytes'') @
     tmpl_row_time @
     htmlescaper rt (Format_listing (Local rt (entry_ModTime e)) (entry_ModTime e)) @
     tmpl_row_close"

text \<open>\<open>tmpl.Execute\<close> on the data \<open>{Path, Files}\<close>.\<close>

definition tmpl_Execute :: "runtime \<Rightarrow> string \<Rightarrow> dirEntry list \<Rightarrow> string" where
  "tmpl_Execute rt path files =
     tmpl_title @ rcdataescaper rt path @ tmpl_style @ htmlescaper rt path @ tmpl_table @
     (if path \<noteq> ''/'' then tmpl_parent else []) @ tmpl_before_range @
     concat (map (tmpl_row rt) files) @ tmpl_tail"

definition serveDirectoryListing :: "runtime \<Rightarrow> response \<Rightarrow> request \<Rightarrow> http_File \<Rightarrow> response" where
  "serveDirectoryListing rt w r f =
     (case Readdir f of
        Inl err \<Rightarrow> Error w ''Error reading directory'' StatusInternalServerError
      | Inr dirs \<Rightarrow>
          (let dirs' = sort_Slice dirs_less dirs;
               entries = map to_dirEntry dirs';
               w1 = Header_Set w ''Content-Type'' ''text/html; charset=utf-8''
           in Write w1 (tmpl_Execute rt (URL_Path r) entries)))"

section \<open>The handler\<close>

text \<open>
  The path that is opened: \<open>r.URL.Path\<close>, with a slash put before it when it does
  not begin with one.
\<close>

definition upath_of :: "request \<Rightarrow> string" where
  "upath_of r = (if \<not> HasPrefix (URL_Path r) ''/'' then ''/'' @ URL_Path r else URL_Path r)"

text \<open>\<open>url[len(url)-1] != c\<close>, with the panic of the indexing.\<close>

definition last_byte_differs :: "string \<Rightarrow> char \<Rightarrow> go_panic + bool" where
  "last_byte_differs url c =
     (case byte_at url (int (length url) - 1) of Inl p \<Rightarrow> Inl p | Inr b \<Rightarrow> Inr (b \<noteq> c))"

text \<open>
  The loop over \<open>h.indexFiles\<close>: the joined path of the first entry that opens, if
  any. \<open>join\<close> is \<open>path.Join\<close> in the first copy and \<open>filepath.Join\<close> in the second.
\<close>

fun indexLoop :: "(string \<Rightarrow> os_error + http_File) \<Rightarrow> (string list \<Rightarrow> string) \<Rightarrow> string \<Rightarrow>
    string list \<Rightarrow> string option" where
  "indexLoop opn join upath [] = None"
| "indexLoop opn join upath (index # rest) =
     (let indexPath = join [upath, index]
      in case opn indexPath of
           Inr indexFile \<Rightarrow> Some indexPath
         | Inl err \<Rightarrow> indexLoop opn join upath rest)"

text \<open>\<open>ServeHTTP\<close> of the first copy.\<close>

definition ServeHTTP :: "runtime \<Rightarrow> StatiqHandler \<Rightarrow> response \<Rightarrow> request \<Rightarrow> go_panic + response" where
  "ServeHTTP rt h w r =
     (let upath = upath_of r
      in case Dir_Open rt (root h) upath of
           Inl err \<Rightarrow>
             (if IsNotExist (Some err) then
                (if spaMode h then
                   Inr (serveFile rt h w (filepath_Join [rootPath h, spaIndex h]))
                 else if errorPage404 h \<noteq> [] then
                   Inr (serveFile rt h (WriteHeader w (notFoundResponseCode h))
                          (filepath_Join [rootPath h, errorPage404 h]))
                 else Inr (NotFound w))
              else Inr (Error w ''Forbidden'' StatusForbidden))
         | Inr f \<Rightarrow>
             (case Stat f of
                Inl err \<Rightarrow> Inr (Error w ''Internal Server Error'' StatusInternalServerError)
              | Inr d \<Rightarrow>
                  (if IsDir d then
                     (let url = URL_Path r
                      in case (if length url = 0 then Inr True
                               else last_byte_differs url (CHR ''/'')) of
                           Inl p \<Rightarrow> Inl p
                         | Inr redirect \<Rightarrow>
                             (if redirect then Inr (localRedirect w r (url @ ''/''))
                              else
                                (case indexLoop (Dir_Open rt (root h)) path_Join upath (indexFiles h) of
                                   Some indexPath \<Rightarrow> Inr (localRedirect w r indexPath)
                                 | None \<Rightarrow>
                                     (if \<not> enableDirListing h then
                                        (if errorPage404 h \<noteq> [] then
                                           Inr (serveFile rt h (WriteHeader w (notFoundResponseCode h))
                                                  (filepath_Join [rootPath h, errorPage404 h]))
                                         else Inr (NotFound w))
                                      else Inr (serveDirectoryListing rt w r f)))))
                   else
                     (let w1 = setCacheHeaders h w d;
                          contentType = TypeByExtension rt (filepath_Ext (Name d));
                          w2 = (if contentType \<noteq> [] then Header_Set w1 ''Content-Type'' contentType
                                else w1)
                      in Inr (ServeContent rt w2 (Name d) (ModTime d) (Read f))))))"

text \<open>
  \<open>ServeHTTP\<close> of the second copy: no test for the empty path before the indexing,
  \<open>filepath.Join\<close> for the index path, no content type of its own, and for a listing
  the directory handle itself is given to \<open>http.ServeContent\<close>.
\<close>

definition ServeHTTP2 :: "runtime \<Rightarrow> StatiqHandler \<Rightarrow> response \<Rightarrow> request \<Rightarrow> go_panic + response" where
  "ServeHTTP2 rt h w r =
     (let upath = upath_of r
      in case Dir_Open rt (root h) upath of
           Inl err \<Rightarrow>
             (if IsNotExist (Some err) then
                (if spaMode h then
                   Inr (serveFile2 rt h w (filepath_Join [root h, spaIndex h]))
                 else if errorPage404 h \<noteq> [] then
                   Inr (serveFile2 rt h (WriteHeader w (notFoundResponseCode h))
                          (filepath_Join [root h, errorPage404 h]))
                 else Inr (NotFound w))
              else Inr (Error w ''Forbidden'' StatusForbidden))
         | Inr f \<Rightarrow>
             (case Stat f of
                Inl err \<Rightarrow> Inr (Error w ''Internal Server Error'' StatusInternalServerError)
              | Inr d \<Rightarrow>
                  (if IsDir d then
                     (let url = URL_Path r
                      in case last_byte_differs url (CHR ''/'') of
                           Inl p \<Rightarrow> Inl p
                         | Inr redirect \<Rightarrow>
                             (if redirect then Inr (localRedirect w r (url @ ''/''))
                              else
                                (case indexLoop (Dir_Open rt (root h)) filepath_Join upath (indexFiles h) of
                                   Some indexPath \<Rightarrow> Inr (localRedirect w r indexPath)
                                 | None \<Rightarrow>
                                     (if \<not> enableDirListing h then
                                        (if errorPage404 h \<noteq> [] then
                                           Inr (serveFile2 rt h (WriteHeader w (notFoundResponseCode h))
                                                  (filepath_Join [root h, errorPage404 h]))
                                         else Inr (NotFound w))
                                      else Inr (ServeContent rt w (Name d) (ModTime d) (Read f))))))
                   else Inr (ServeContent rt (setCacheHeaders h w d) (Name d) (ModTime d) (Read f)))))"

section \<open>An example site\<close>

text \<open>
  A small site under \<open>/srv/www\<close>, on which the handler can be run: two pages at the
  root, a directory \<open>sub\<close> without an index file, a directory \<open>docs\<close> with two, a
  path that may not be read, one whose opening fails for another reason, and one
  that opens and then cannot be examined.
\<close>

definition ex_info :: "string \<Rightarrow> int \<Rightarrow> bool \<Rightarrow> FileInfo" where
  "ex_info n sz dir = \<lparr>Name = n, Size = sz, Mode = 420, ModTime = 1700000000, IsDir = dir\<rparr>"

definition ex_regular :: "string \<Rightarrow> string \<Rightarrow> os_error + http_File" where
  "ex_regular n bytes =
     Inr \<lparr>Stat = Inr (ex_info n (int (length bytes)) False), Readdir = Inl ErrOther, Read = Inr bytes\<rparr>"

definition ex_directory :: "string \<Rightarrow> FileInfo list \<Rightarrow> os_error + http_File" where
  "ex_directory n entries =
     Inr \<lparr>Stat = Inr (ex_info n 4096 True), Readdir = Inr entries, Read = Inl ErrOther\<rparr>"

definition ex_sub_entries :: "FileInfo list" where
  "ex_sub_entries =
     [ex_info ''b.txt'' 5 False, ex_info ''zeta'' 4096 True, ex_info ''a.txt'' 3 False,
      ex_info ''alpha'' 4096 True]"

definition ex_tree :: "(string \<times> (os_error + http_File)) list" where
  "ex_tree =
     [(''/'', ex_directory ''/'' [ex_info ''index.html'' 2 False, ex_info ''sub'' 4096 True]),
      (''/index.html'', ex_regular ''index.html'' ''hi''),
      (''/404.html'', ex_regular ''404.html'' ''<h1>gone</h1>''),
      (''/sub'', ex_directory ''sub'' ex_sub_entries),
      (''/docs'', ex_directory ''docs'' []),
      (''/docs/index.html'', ex_regular ''index.html'' ''docs''),
      (''/docs/index.htm'', ex_regular ''index.htm'' ''old docs''),
      (''/secret'', Inl ErrPermission),
      (''/broken'', Inl ErrOther),
      (''/stale'', Inr \<lparr>Stat = Inl ErrOther, Readdir = Inl ErrOther, Read = Inl ErrOther\<rparr>)]"

definition ex_open :: "string \<Rightarrow> os_error + http_File" where
  "ex_open p = (case map_of ex_tree p of Some res \<Rightarrow> res | None \<Rightarrow> Inl ErrNotExist)"

definition ex_os_Open :: "string \<Rightarrow> os_error + http_File" where
  "ex_os_Open p =
     (if take 8 p = ''/srv/www'' then ex_open (path_Clean (''/'' @ drop 8 p)) else Inl ErrNotExist)"

definition ex_Dir_Open :: "string \<Rightarrow> string \<Rightarrow> os_error + http_File" where
  "ex_Dir_Open rootp name =
     (if rootp = ''/srv/www'' then ex_open (path_Clean (''/'' @ name)) else Inl ErrNotExist)"

definition ex_mime :: "string \<Rightarrow> string" where
  "ex_mime ext =
     (if ext = ''.html'' then ''text/html; charset=utf-8''
      else if ext = ''.css'' then ''text/css; charset=utf-8''
      else [])"

text \<open>An escaper for the example: the replacements of HTML's special characters.\<close>

definition ex_escape_char :: "char \<Rightarrow> string" where
  "ex_escape_char c =
     (if c = CHR 0x22 then ''&#34;''
      else if c = CHR 0x27 then ''&#39;''
      else if c = CHR ''&'' then ''&amp;''
      else if c = CHR ''<'' then ''&lt;''
      else if c = CHR ''>'' then ''&gt;''
      else [c])"

definition ex_escape :: "string \<Rightarrow> string" where
  "ex_escape s = concat (map ex_escape_char s)"

definition ex_rt :: runtime where
  "ex_rt =
     \<lparr>Dir_Open = ex_Dir_Open, os_Open = ex_os_Open,
      os_Stat = (\<lambda>p. case ex_os_Open p of Inl e \<Rightarrow> Inl e | Inr f \<Rightarrow> Stat f),
      filepath_Abs = (\<lambda>p. Inr (if HasPrefix p ''/'' then path_Clean p else path_Join [''/srv'', p])),
      TypeByExtension = ex_mime,
      DetectContentType = (\<lambda>bs. ''text/plain; charset=utf-8''),
      Local = (\<lambda>t. 0),
      rcdataescaper = ex_escape, htmlescaper = ex_escape, urlattrescaper = ex_escape\<rparr>"

definition ex_config :: Config where
  "ex_config = CreateConfig\<lparr>Root := ''/srv/www''\<rparr>"

definition ex_handler :: "Config \<Rightarrow> StatiqHandler" where
  "ex_handler config =
     make_handler ''/srv/www'' config (if ErrorPage404 config \<noteq> [] then StatusOK else StatusNotFound)"

definition ex_request :: "string \<Rightarrow> string \<Rightarrow> request" where
  "ex_request p q = \<lparr>URL_Path = p, URL_RawQuery = q\<rparr>"

section \<open>Directory paths in canonical form\<close>

text \<open>
  A name of a directory entry is not empty, is neither \<open>.\<close> nor \<open>..\<close> and holds no
  slash. \<open>dir_path\<close> is the URL path of a directory in canonical form: a slash, then
  each element followed by a slash.
\<close>

definition plain_name :: "string \<Rightarrow> bool" where
  "plain_name s = (s \<noteq> [] \<and> s \<noteq> ''.'' \<and> s \<noteq> ''..'' \<and> CHR ''/'' \<notin> set s)"

definition dir_path :: "string list \<Rightarrow> string" where
  "dir_path segs = ''/'' @ concat (map (\<lambda>s. s @ ''/'') segs)"

section \<open>Reading the attributes of a page\<close>

text \<open>
  The values of the double-quoted attributes of an HTML text, in the order of the
  text. The scan is outside a value (\<open>None\<close>) or inside one, with the characters of
  the value read so far in reverse. The listing's only attributes are the character
  set and the targets of its links, so a listing has a link to the parent directory
  when \<open>../\<close> is among these values.
\<close>

fun scan_quoted :: "string option \<Rightarrow> string \<Rightarrow> string list" where
  "scan_quoted st [] = []"
| "scan_quoted None (c # cs) =
     (if c = CHR 0x22 then scan_quoted (Some []) cs else scan_quoted None cs)"
| "scan_quoted (Some acc) (c # cs) =
     (if c = CHR 0x22 then rev acc # scan_quoted None cs else scan_quoted (Some (c # acc)) cs)"

definition attribute_values :: "string \<Rightarrow> string list" where
  "attribute_values html = scan_quoted None html"

text \<open>The target of the link that the template writes for an entry.\<close>

definition entry_href :: "runtime \<Rightarrow> FileInfo \<Rightarrow> string" where
  "entry_href rt d = urlattrescaper rt (Name d) @ (if IsDir d then ''/'' else [])"

section \<open>The response writer's operations\<close>

lemma status_WriteHeader:
  "status (WriteHeader w code) = (case status w of None \<Rightarrow> Some code | Some c \<Rightarrow> Some c)"
  by (simp add: WriteHeader_def split: option.split)

lemma body_WriteHeader: "body (WriteHeader w code) = body w"
  by (simp add: WriteHeader_def split: option.split)

lemma header_WriteHeader: "header (WriteHeader w code) = header w"
  by (simp add: WriteHeader_def split: option.split)

lemma status_Write:
  "status (Write w bs) = (case status w of None \<Rightarrow> Some StatusOK | Some c \<Rightarrow> Some c)"
  by (simp add: Write_def Let_def status_WriteHeader split: option.split)

lemma body_Write: "body (Write w bs) = body w @ bs"
  by (simp add: Write_def Let_def body_WriteHeader split: option.split)

lemma header_Write: "header (Write w bs) = header w"
  by (simp add: Write_def Let_def header_WriteHeader split: option.split)

lemma status_Header_Set: "status (Header_Set w k v) = status w"
  by (simp add: Header_Set_def)

lemma body_Header_Set: "body (Header_Set w k v) = body w"
  by (simp add: Header_Set_def)

lemma header_Header_Set: "header (Header_Set w k v) = (header w)(k \<mapsto> v)"
  by (simp add: Header_Set_def)

lemma status_Header_Del: "status (Header_Del w k) = status w"
  by (simp add: Header_Del_def)

lemma body_Header_Del: "body (Header_Del w k) = body w"
  by (simp add: Header_Del_def)

lemma header_Header_Del: "header (Header_Del w k) = (header w)(k := None)"
  by (simp add: Header_Del_def)

lemmas writer_simps = status_WriteHeader body_WriteHeader header_WriteHeader status_Write body_Write
  header_Write status_Header_Set body_Header_Set header_Header_Set status_Header_Del body_Header_Del
  header_Header_Del

lemma status_Error:
  "status (Error w msg code) = (case status w of None \<Rightarrow> Some code | Some c \<Rightarrow> Some c)"
  by (simp add: Error_def Let_def writer_simps split: option.split)

lemma body_Error: "body (Error w msg code) = body w @ msg @ [CHR 0x0A]"
  by (simp add: Error_def Let_def writer_simps)

lemma status_localRedirect:
  "status (localRedirect w r p) = (case status w of None \<Rightarrow> Some StatusMovedPermanently | Some c \<Rightarrow> Some c)"
  by (simp add: localRedirect_def Let_def writer_simps)

lemma body_localRedirect: "body (localRedirect w r p) = body w"
  by (simp add: localRedirect_def Let_def writer_simps)

lemma Location_localRedirect:
  "header (localRedirect w r p) ''Location'' =
     Some (p @ (if URL_RawQuery r = [] then [] else ''?'' @ URL_RawQuery r))"
  by (simp add: localRedirect_def Let_def writer_simps)

section \<open>The trailing-slash test\<close>

lemma last_byte_differs_nonempty:
  "url \<noteq> [] \<Longrightarrow> last_byte_differs url c = Inr (last url \<noteq> c)"
proof -
  assume ne: "url \<noteq> []"
  then have len: "0 < length url" by simp
  then have idx: "nat (int (length url) - 1) = length url - 1" by simp
  have "byte_at url (int (length url) - 1) = Inr (url ! (length url - 1))"
    using len by (simp add: byte_at_def idx)
  then show ?thesis
    using ne by (simp add: last_byte_differs_def last_conv_nth)
qed

lemma last_byte_differs_empty: "last_byte_differs [] c = Inl IndexOutOfRange"
  by (simp add: last_byte_differs_def byte_at_def)


text \<open>
  The second copy indexes without the test: whenever the root opens as a directory,
  the request with the empty path makes it panic.
\<close>

lemma ServeHTTP2_panics_on_empty_path:
  assumes "URL_Path r = []" and "Dir_Open rt (root h) ''/'' = Inr f" and "Stat f = Inr d"
    and "IsDir d"
  shows "ServeHTTP2 rt h w r = Inl IndexOutOfRange"
  using assms
  by (simp add: ServeHTTP2_def upath_of_def HasPrefix_def Let_def last_byte_differs_empty)

text \<open>
  Claim C6. A request that resolves to an existing directory and whose original path
  lacks a trailing slash is answered by a 301 redirect; its \<open>Location\<close> is the
  original path with \<open>/\<close> appended, followed by \<open>?\<close> and the original query string,
  byte for byte, when the query is not empty. The first copy does so for every
  path, the second for every path that is not empty.
\<close>

theorem directory_without_slash_redirects:
  assumes opened: "Dir_Open rt (root h) (upath_of r) = Inr f"
    and stat: "Stat f = Inr d"
    and dir: "IsDir d"
    and noslash: "URL_Path r = [] \<or> last (URL_Path r) \<noteq> CHR ''/''"
    and uncommitted: "status w = None"
  shows "\<exists>w'. ServeHTTP rt h w r = Inr w' \<and> status w' = Some StatusMovedPermanently \<and>
           header w' ''Location'' =
             Some (URL_Path r @ ''/'' @
                   (if URL_RawQuery r = [] then [] else ''?'' @ URL_RawQuery r)) \<and>
           body w' = body w \<and>
           (URL_Path r \<noteq> [] \<longrightarrow> ServeHTTP2 rt h w r = Inr w')"
proof -
  let ?w = "localRedirect w r (URL_Path r @ ''/'')"
  have first: "ServeHTTP rt h w r = Inr ?w"
    using opened stat dir noslash
    by (cases "URL_Path r = []")
       (auto simp add: ServeHTTP_def Let_def last_byte_differs_nonempty)
  have second: "ServeHTTP2 rt h w r = Inr ?w" if "URL_Path r \<noteq> []"
    using that opened stat dir noslash
    by (simp add: ServeHTTP2_def Let_def last_byte_differs_nonempty)
  show ?thesis
    using first second uncommitted
    by (simp add: status_localRedirect Location_localRedirect body_localRedirect)
qed

section \<open>Opening paths of the example site\<close>

lemma ex_open_root [simp]: "Dir_Open ex_rt ''/srv/www'' ''/'' = ex_directory ''/'' [ex_info ''index.html'' 2 False, ex_info ''sub'' 4096 True]"
  by (simp add: ex_rt_def ex_Dir_Open_def path_Clean_def ex_open_def ex_tree_def)

lemma ex_open_sub: "Dir_Open ex_rt ''/srv/www'' ''/sub'' = ex_directory ''sub'' ex_sub_entries"
  by (simp add: ex_rt_def ex_Dir_Open_def path_Clean_def ex_open_def ex_tree_def)

text \<open>
  Claim C5. The trailing-slash test must not index out of bounds for any request
  path. The second copy of \<open>ServeHTTP\<close> evaluates \<open>url[len(url)-1]\<close> without a test
  for the empty path: on the example site, where the root opens as a directory, the
  request with the empty path makes it panic.
\<close>

theorem second_copy_panics_on_empty_path:
  "ServeHTTP2 ex_rt (ex_handler ex_config) fresh (ex_request [] []) = Inl IndexOutOfRange"
  by (simp add: ServeHTTP2_def upath_of_def HasPrefix_def ex_request_def ex_handler_def
        make_handler_def ex_directory_def ex_info_def last_byte_differs_empty)

text \<open>The redirect of C6 on the example site, for \<open>/sub?a=1&b\<close>.\<close>

theorem directory_without_slash_redirects_witness:
  "\<exists>w'. ServeHTTP ex_rt (ex_handler ex_config) fresh (ex_request ''/sub'' ''a=1&b'') = Inr w' \<and>
        ServeHTTP2 ex_rt (ex_handler ex_config) fresh (ex_request ''/sub'' ''a=1&b'') = Inr w' \<and>
        status w' = Some StatusMovedPermanently \<and> header w' ''Location'' = Some ''/sub/?a=1&b'' \<and>
        body w' = []"
proof -
  have opened: "Dir_Open ex_rt (root (ex_handler ex_config)) (upath_of (ex_request ''/sub'' ''a=1&b''))
      = Inr \<lparr>Stat = Inr (ex_info ''sub'' 4096 True), Readdir = Inr ex_sub_entries, Read = Inl ErrOther\<rparr>"
    by (simp add: ex_handler_def make_handler_def upath_of_def HasPrefix_def ex_request_def
          ex_open_sub ex_directory_def)
  have stat: "Stat \<lparr>Stat = Inr (ex_info ''sub'' 4096 True), Readdir = Inr ex_sub_entries, Read = Inl ErrOther\<rparr>
      = Inr (ex_info ''sub'' 4096 True)"
    by simp
  have dir: "IsDir (ex_info ''sub'' 4096 True)"
    by (simp add: ex_info_def)
  have noslash: "URL_Path (ex_request ''/sub'' ''a=1&b'') = [] \<or>
      last (URL_Path (ex_request ''/sub'' ''a=1&b'')) \<noteq> CHR ''/''"
    by (simp add: ex_request_def)
  have uncommitted: "status fresh = None"
    by (simp add: fresh_def)
  show ?thesis
    using directory_without_slash_redirects [OF opened stat dir noslash uncommitted]
    by (auto simp add: ex_request_def fresh_def)
qed

section \<open>Serving a file\<close>

lemma status_setCacheHeaders: "status (setCacheHeaders h w d) = status w"
  by (simp add: setCacheHeaders_def Let_def writer_simps split: option.split)

lemma body_setCacheHeaders: "body (setCacheHeaders h w d) = body w"
  by (simp add: setCacheHeaders_def Let_def writer_simps split: option.split)

lemma status_ServeContent:
  "status (ServeContent rt w name modtime content) =
     (case status w of
        None \<Rightarrow> (case content of Inl e \<Rightarrow> Some StatusInternalServerError | Inr bs \<Rightarrow> Some StatusOK)
      | Some c \<Rightarrow> Some c)"
  by (simp add: ServeContent_def Let_def writer_simps status_Error split: option.split sum.split)

lemma body_ServeContent:
  "body (ServeContent rt w name modtime (Inr bs)) = body w @ bs"
  by (simp add: ServeContent_def Let_def writer_simps split: option.split)

lemma status_serveFile_committed:
  "status w = Some c \<Longrightarrow> status (serveFile rt h w p) = Some c"
  by (simp add: serveFile_def Let_def status_Error status_ServeContent status_setCacheHeaders
        writer_simps split: sum.split)

lemma status_serveFile2_committed:
  "status w = Some c \<Longrightarrow> status (serveFile2 rt h w p) = Some c"
  by (simp add: serveFile2_def Let_def status_Error status_ServeContent status_setCacheHeaders
        writer_simps split: sum.split)

lemma status_serveFile_uncommitted:
  "status w = None \<Longrightarrow>
     status (serveFile rt h w p) = Some StatusOK \<or>
     status (serveFile rt h w p) = Some StatusInternalServerError"
  by (simp add: serveFile_def Let_def status_Error status_ServeContent status_setCacheHeaders
        writer_simps split: sum.split)

lemma status_serveFile2_uncommitted:
  "status w = None \<Longrightarrow>
     status (serveFile2 rt h w p) = Some StatusOK \<or>
     status (serveFile2 rt h w p) = Some StatusInternalServerError"
  by (simp add: serveFile2_def Let_def status_Error status_ServeContent status_setCacheHeaders
        writer_simps split: sum.split)

lemma serveFile_readable:
  assumes "os_Open rt p = Inr f" and "Stat f = Inr d" and "Read f = Inr bytes"
  shows "status (serveFile rt h w p) = (case status w of None \<Rightarrow> Some StatusOK | Some c \<Rightarrow> Some c)"
    and "body (serveFile rt h w p) = body w @ bytes"
  using assms
  by (simp_all add: serveFile_def Let_def status_ServeContent body_ServeContent
        status_setCacheHeaders body_setCacheHeaders writer_simps split: option.split)

lemma serveFile_unreadable:
  assumes "os_Open rt p = Inl e \<or> (\<exists>f e. os_Open rt p = Inr f \<and> Stat f = Inl e)"
  shows "serveFile rt h w p = Error w ''Internal Server Error'' StatusInternalServerError"
  using assms by (auto simp add: serveFile_def)

lemma ServeContent_Dir_Open_update:
  "ServeContent (rt\<lparr>Dir_Open := D\<rparr>) w name modtime content = ServeContent rt w name modtime content"
  by (simp add: ServeContent_def Let_def split: sum.split option.split)

lemma serveFile_Dir_Open_update: "serveFile (rt\<lparr>Dir_Open := D\<rparr>) h w p = serveFile rt h w p"
  by (simp add: serveFile_def ServeContent_Dir_Open_update Let_def split: sum.split)

lemma serveFile2_Dir_Open_update: "serveFile2 (rt\<lparr>Dir_Open := D\<rparr>) h w p = serveFile2 rt h w p"
  by (simp add: serveFile2_def ServeContent_Dir_Open_update Let_def split: sum.split)

lemma setCacheHeaders_handler_update:
  "setCacheHeaders (h\<lparr>errorPage404 := page, notFoundResponseCode := code\<rparr>) w d = setCacheHeaders h w d"
  by (simp add: setCacheHeaders_def Let_def split: option.split)

lemma serveFile_handler_update:
  "serveFile rt (h\<lparr>errorPage404 := page, notFoundResponseCode := code\<rparr>) w p = serveFile rt h w p"
  by (simp add: serveFile_def setCacheHeaders_handler_update Let_def split: sum.split)

section \<open>Failures of opening and of Stat\<close>

text \<open>What the handler does with a path that does not exist.\<close>

lemma ServeHTTP_missing:
  "Dir_Open rt (root h) (upath_of r) = Inl ErrNotExist \<Longrightarrow>
   ServeHTTP rt h w r =
     Inr (if spaMode h then serveFile rt h w (filepath_Join [rootPath h, spaIndex h])
          else if errorPage404 h \<noteq> [] then
            serveFile rt h (WriteHeader w (notFoundResponseCode h))
              (filepath_Join [rootPath h, errorPage404 h])
          else NotFound w)"
  by (simp add: ServeHTTP_def Let_def IsNotExist_def)

lemma ServeHTTP2_missing:
  "Dir_Open rt (root h) (upath_of r) = Inl ErrNotExist \<Longrightarrow>
   ServeHTTP2 rt h w r =
     Inr (if spaMode h then serveFile2 rt h w (filepath_Join [root h, spaIndex h])
          else if errorPage404 h \<noteq> [] then
            serveFile2 rt h (WriteHeader w (notFoundResponseCode h))
              (filepath_Join [root h, errorPage404 h])
          else NotFound w)"
  by (simp add: ServeHTTP2_def Let_def IsNotExist_def)

lemma ServeHTTP_open_fails:
  "Dir_Open rt (root h) (upath_of r) = Inl err \<Longrightarrow> err \<noteq> ErrNotExist \<Longrightarrow>
   ServeHTTP rt h w r = Inr (Error w ''Forbidden'' StatusForbidden) \<and>
   ServeHTTP2 rt h w r = Inr (Error w ''Forbidden'' StatusForbidden)"
  by (simp add: ServeHTTP_def ServeHTTP2_def Let_def IsNotExist_def)

lemma ServeHTTP_stat_fails:
  "Dir_Open rt (root h) (upath_of r) = Inr f \<Longrightarrow> Stat f = Inl err \<Longrightarrow>
   ServeHTTP rt h w r = Inr (Error w ''Internal Server Error'' StatusInternalServerError) \<and>
   ServeHTTP2 rt h w r = Inr (Error w ''Internal Server Error'' StatusInternalServerError)"
  by (simp add: ServeHTTP_def ServeHTTP2_def Let_def)

lemma missing_status_not_forbidden:
  assumes "status w = None" and "notFoundResponseCode h \<noteq> StatusForbidden"
  shows "status (if spaMode h then serveFile rt h w p
                 else if errorPage404 h \<noteq> [] then
                   serveFile rt h (WriteHeader w (notFoundResponseCode h)) q
                 else NotFound w) \<noteq> Some StatusForbidden"
    and "status (if spaMode h then serveFile2 rt h w p
                 else if errorPage404 h \<noteq> [] then
                   serveFile2 rt h (WriteHeader w (notFoundResponseCode h)) q
                 else NotFound w) \<noteq> Some StatusForbidden"
  using assms status_serveFile_uncommitted [of w rt h p] status_serveFile2_uncommitted [of w rt h p]
  by (auto simp add: status_serveFile_committed status_serveFile2_committed writer_simps
        NotFound_def status_Error)

text \<open>
  Claim C1, as the code has it. When opening the resolved path fails, a path that does
  not exist is routed to the not-found handling (the SPA index, else the custom error
  page, else a plain 404), and every other failure of opening, permission denied or
  not, is answered 403 Forbidden; a failure of \<open>Stat\<close> on the opened file is answered
  500 Internal Server Error. The not-found handling never answers 403 when the
  handler's not-found code is not 403 (\<open>New\<close> stores 200 or 404). Both copies of
  \<open>ServeHTTP\<close> agree on this.
\<close>

theorem open_and_stat_failures:
  assumes uncommitted: "status w = None"
  shows
    "(\<forall>err. Dir_Open rt (root h) (upath_of r) = Inl err \<and> err \<noteq> ErrNotExist \<longrightarrow>
        (\<exists>w'. ServeHTTP rt h w r = Inr w' \<and> ServeHTTP2 rt h w r = Inr w' \<and>
              status w' = Some StatusForbidden \<and>
              body w' = body w @ ''Forbidden'' @ [CHR 0x0A])) \<and>
     (\<forall>f err. Dir_Open rt (root h) (upath_of r) = Inr f \<and> Stat f = Inl err \<longrightarrow>
        (\<exists>w'. ServeHTTP rt h w r = Inr w' \<and> ServeHTTP2 rt h w r = Inr w' \<and>
              status w' = Some StatusInternalServerError \<and>
              body w' = body w @ ''Internal Server Error'' @ [CHR 0x0A])) \<and>
     (Dir_Open rt (root h) (upath_of r) = Inl ErrNotExist \<longrightarrow>
        (\<exists>w' w''.
           ServeHTTP rt h w r = Inr w' \<and>
           w' = (if spaMode h then serveFile rt h w (filepath_Join [rootPath h, spaIndex h])
                 else if errorPage404 h \<noteq> [] then
                   serveFile rt h (WriteHeader w (notFoundResponseCode h))
                     (filepath_Join [rootPath h, errorPage404 h])
                 else NotFound w) \<and>
           ServeHTTP2 rt h w r = Inr w'' \<and>
           w'' = (if spaMode h then serveFile2 rt h w (filepath_Join [root h, spaIndex h])
                  else if errorPage404 h \<noteq> [] then
                    serveFile2 rt h (WriteHeader w (notFoundResponseCode h))
                      (filepath_Join [root h, errorPage404 h])
                  else NotFound w) \<and>
           (notFoundResponseCode h \<noteq> StatusForbidden \<longrightarrow>
              status w' \<noteq> Some StatusForbidden \<and> status w'' \<noteq> Some StatusForbidden)))"
proof (intro conjI allI impI)
  fix err
  assume "Dir_Open rt (root h) (upath_of r) = Inl err \<and> err \<noteq> ErrNotExist"
  then show "\<exists>w'. ServeHTTP rt h w r = Inr w' \<and> ServeHTTP2 rt h w r = Inr w' \<and>
      status w' = Some StatusForbidden \<and> body w' = body w @ ''Forbidden'' @ [CHR 0x0A]"
    using uncommitted ServeHTTP_open_fails [of rt h r err w]
    by (simp add: status_Error body_Error)
next
  fix f err
  assume "Dir_Open rt (root h) (upath_of r) = Inr f \<and> Stat f = Inl err"
  then show "\<exists>w'. ServeHTTP rt h w r = Inr w' \<and> ServeHTTP2 rt h w r = Inr w' \<and>
      status w' = Some StatusInternalServerError \<and>
      body w' = body w @ ''Internal Server Error'' @ [CHR 0x0A]"
    using uncommitted ServeHTTP_stat_fails [of rt h r f err w]
    by (simp add: status_Error body_Error)
next
  assume missing: "Dir_Open rt (root h) (upath_of r) = Inl ErrNotExist"
  show "\<exists>w' w''.
           ServeHTTP rt h w r = Inr w' \<and>
           w' = (if spaMode h then serveFile rt h w (filepath_Join [rootPath h, spaIndex h])
                 else if errorPage404 h \<noteq> [] then
                   serveFile rt h (WriteHeader w (notFoundResponseCode h))
                     (filepath_Join [rootPath h, errorPage404 h])
                 else NotFound w) \<and>
           ServeHTTP2 rt h w r = Inr w'' \<and>
           w'' = (if spaMode h then serveFile2 rt h w (filepath_Join [root h, spaIndex h])
                  else if errorPage404 h \<noteq> [] then
                    serveFile2 rt h (WriteHeader w (notFoundResponseCode h))
                      (filepath_Join [root h, errorPage404 h])
                  else NotFound w) \<and>
           (notFoundResponseCode h \<noteq> StatusForbidden \<longrightarrow>
              status w' \<noteq> Some StatusForbidden \<and> status w'' \<noteq> Some StatusForbidden)"
    using ServeHTTP_missing [OF missing, of w] ServeHTTP2_missing [OF missing, of w]
      missing_status_not_forbidden [OF uncommitted, of h rt]
    by simp
qed

section \<open>Running the example site\<close>

lemmas ex_defs = ex_rt_def ex_Dir_Open_def ex_os_Open_def path_Clean_def ex_open_def ex_tree_def
  ex_handler_def make_handler_def ex_config_def CreateConfig_def ex_request_def upath_of_def
  HasPrefix_def filepath_Join_def path_Join_def ex_regular_def ex_directory_def ex_info_def

lemma status_fresh: "status fresh = None"
  by (simp add: fresh_def)

lemma body_fresh: "body fresh = []"
  by (simp add: fresh_def)

text \<open>
  The three cases of C1 on the example site: \<open>/secret\<close> may not be read, \<open>/stale\<close>
  opens and cannot be examined, \<open>/nothing\<close> does not exist.
\<close>

theorem open_and_stat_failures_witness:
  "(\<exists>w'. ServeHTTP ex_rt (ex_handler ex_config) fresh (ex_request ''/secret'' []) = Inr w' \<and>
         status w' = Some StatusForbidden) \<and>
   (\<exists>w'. ServeHTTP ex_rt (ex_handler ex_config) fresh (ex_request ''/stale'' []) = Inr w' \<and>
         status w' = Some StatusInternalServerError) \<and>
   (\<exists>w'. ServeHTTP ex_rt (ex_handler ex_config) fresh (ex_request ''/nothing'' []) = Inr w' \<and>
         w' = NotFound fresh \<and> status w' = Some StatusNotFound)"
proof (intro conjI)
  have secret: "Dir_Open ex_rt (root (ex_handler ex_config)) (upath_of (ex_request ''/secret'' []))
      = Inl ErrPermission"
    by (simp add: ex_defs)
  show "\<exists>w'. ServeHTTP ex_rt (ex_handler ex_config) fresh (ex_request ''/secret'' []) = Inr w' \<and>
         status w' = Some StatusForbidden"
    using open_and_stat_failures [OF status_fresh, of ex_rt "ex_handler ex_config"
        "ex_request ''/secret'' []", THEN conjunct1, rule_format, of ErrPermission] secret
    by auto
next
  have stale: "Dir_Open ex_rt (root (ex_handler ex_config)) (upath_of (ex_request ''/stale'' []))
      = Inr \<lparr>Stat = Inl ErrOther, Readdir = Inl ErrOther, Read = Inl ErrOther\<rparr>"
    by (simp add: ex_defs)
  show "\<exists>w'. ServeHTTP ex_rt (ex_handler ex_config) fresh (ex_request ''/stale'' []) = Inr w' \<and>
         status w' = Some StatusInternalServerError"
    using open_and_stat_failures [OF status_fresh, of ex_rt "ex_handler ex_config"
        "ex_request ''/stale'' []", THEN conjunct2, THEN conjunct1, rule_format,
        of "\<lparr>Stat = Inl ErrOther, Readdir = Inl ErrOther, Read = Inl ErrOther\<rparr>" ErrOther] stale
    by auto
next
  have absent: "Dir_Open ex_rt (root (ex_handler ex_config)) (upath_of (ex_request ''/nothing'' []))
      = Inl ErrNotExist"
    by (simp add: ex_defs)
  have plain: "\<not> spaMode (ex_handler ex_config)" "errorPage404 (ex_handler ex_config) = []"
    by (simp_all add: ex_defs)
  show "\<exists>w'. ServeHTTP ex_rt (ex_handler ex_config) fresh (ex_request ''/nothing'' []) = Inr w' \<and>
         w' = NotFound fresh \<and> status w' = Some StatusNotFound"
    using open_and_stat_failures [OF status_fresh, of ex_rt "ex_handler ex_config"
        "ex_request ''/nothing'' []", THEN conjunct2, THEN conjunct2, THEN mp, OF absent] plain
    by (auto simp add: NotFound_def status_Error status_fresh)
qed

text \<open>
  C1 as stated fails: opening \<open>/broken\<close> fails with an error that is neither
  ``does not exist'' nor ``permission denied'', and the answer is 403, not 500. And
  a path that does not exist can be answered 500: with \<open>spaMode\<close> true and an SPA
  index \<open>app.html\<close> that the site does not have, \<open>serveFile\<close> fails to open it.
\<close>

theorem other_open_failure_is_forbidden:
  "Dir_Open ex_rt (root (ex_handler ex_config)) (upath_of (ex_request ''/broken'' [])) = Inl ErrOther \<and>
   (\<exists>w'. ServeHTTP ex_rt (ex_handler ex_config) fresh (ex_request ''/broken'' []) = Inr w' \<and>
         ServeHTTP2 ex_rt (ex_handler ex_config) fresh (ex_request ''/broken'' []) = Inr w' \<and>
         status w' = Some StatusForbidden \<and> status w' \<noteq> Some StatusInternalServerError) \<and>
   Dir_Open ex_rt (root (ex_handler (ex_config\<lparr>SPAMode := True, SPAIndex := ''app.html''\<rparr>)))
     (upath_of (ex_request ''/nothing'' [])) = Inl ErrNotExist \<and>
   (\<exists>w'. ServeHTTP ex_rt (ex_handler (ex_config\<lparr>SPAMode := True, SPAIndex := ''app.html''\<rparr>)) fresh
           (ex_request ''/nothing'' []) = Inr w' \<and>
         status w' = Some StatusInternalServerError)"
proof -
  let ?h = "ex_handler (ex_config\<lparr>SPAMode := True, SPAIndex := ''app.html''\<rparr>)"
  have broken: "Dir_Open ex_rt (root (ex_handler ex_config)) (upath_of (ex_request ''/broken'' []))
      = Inl ErrOther"
    by (simp add: ex_defs)
  then have forbidden:
    "\<exists>w'. ServeHTTP ex_rt (ex_handler ex_config) fresh (ex_request ''/broken'' []) = Inr w' \<and>
         ServeHTTP2 ex_rt (ex_handler ex_config) fresh (ex_request ''/broken'' []) = Inr w' \<and>
         status w' = Some StatusForbidden \<and> status w' \<noteq> Some StatusInternalServerError"
    by (simp add: ServeHTTP_def ServeHTTP2_def Let_def IsNotExist_def status_Error status_fresh)
  have absent: "Dir_Open ex_rt (root ?h) (upath_of (ex_request ''/nothing'' [])) = Inl ErrNotExist"
    by (simp add: ex_defs)
  have spa: "spaMode ?h"
    by (simp add: ex_defs)
  have unopened: "os_Open ex_rt (filepath_Join [rootPath ?h, spaIndex ?h]) = Inl ErrNotExist \<or>
      (\<exists>f e. os_Open ex_rt (filepath_Join [rootPath ?h, spaIndex ?h]) = Inr f \<and> Stat f = Inl e)"
    by (simp add: ex_defs)
  have "ServeHTTP ex_rt ?h fresh (ex_request ''/nothing'' []) =
      Inr (Error fresh ''Internal Server Error'' StatusInternalServerError)"
    using ServeHTTP_missing [OF absent, of fresh] spa serveFile_unreadable [OF unopened, of ?h fresh]
    by simp
  then have failed:
    "\<exists>w'. ServeHTTP ex_rt ?h fresh (ex_request ''/nothing'' []) = Inr w' \<and>
         status w' = Some StatusInternalServerError"
    by (simp add: status_Error status_fresh)
  show ?thesis
    using broken forbidden absent failed by blast
qed

section \<open>Construction\<close>

lemma check_error_page_Inr:
  "check_error_page rt rootp config = Inr h \<Longrightarrow>
   h = make_handler rootp config (if ErrorPage404 config \<noteq> [] then StatusOK else StatusNotFound)"
  by (auto simp add: check_error_page_def Let_def split: if_splits)

lemma New_Inr:
  assumes "New rt MkdirAll config = Inr h"
  shows "\<exists>rootp. h = make_handler rootp config
                    (if ErrorPage404 config \<noteq> [] then StatusOK else StatusNotFound)"
proof -
  obtain rt' rootp where "check_error_page rt' rootp config = Inr h"
    using assms by (auto simp add: New_def split: sum.splits if_splits)
  then show ?thesis
    by (blast dest: check_error_page_Inr)
qed

lemma New_fields:
  assumes "New rt MkdirAll config = Inr h"
  shows "spaMode h = SPAMode config" and "errorPage404 h = ErrorPage404 config"
    and "notFoundResponseCode h = (if ErrorPage404 config \<noteq> [] then StatusOK else StatusNotFound)"
    and "root h = rootPath h"
  using New_Inr [OF assms] by (auto simp add: make_handler_def)

section \<open>The index loop\<close>

lemma filepath_Join_eq: "filepath_Join = path_Join"
  by (rule ext) (simp add: filepath_Join_def)

lemma indexLoop_None:
  "list_all (\<lambda>index. isl (opn (join [upath, index]))) indexes \<Longrightarrow>
   indexLoop opn join upath indexes = None"
  by (induction indexes) (auto simp add: Let_def split: sum.split)

section \<open>A directory without an index file, listing disabled\<close>

lemma ServeHTTP_listing_disabled:
  assumes "Dir_Open rt (root h) (upath_of r) = Inr f" and "Stat f = Inr d" and "IsDir d"
    and "URL_Path r \<noteq> [] \<and> last (URL_Path r) = CHR ''/''"
    and "list_all (\<lambda>index. isl (Dir_Open rt (root h) (path_Join [upath_of r, index])))
           (indexFiles h)"
    and "\<not> enableDirListing h"
  shows "ServeHTTP rt h w r =
       Inr (if errorPage404 h \<noteq> [] then
              serveFile rt h (WriteHeader w (notFoundResponseCode h))
                (filepath_Join [rootPath h, errorPage404 h])
            else NotFound w)"
    and "ServeHTTP2 rt h w r =
       Inr (if errorPage404 h \<noteq> [] then
              serveFile2 rt h (WriteHeader w (notFoundResponseCode h))
                (filepath_Join [root h, errorPage404 h])
            else NotFound w)"
  using assms indexLoop_None [of "Dir_Open rt (root h)" path_Join "upath_of r" "indexFiles h"]
  by (simp_all add: ServeHTTP_def ServeHTTP2_def Let_def last_byte_differs_nonempty
        filepath_Join_eq)

text \<open>
  Claim C2, as the code has it. For an existing directory requested with a trailing
  slash, in which no configured index file opens, and with the listing disabled, the
  handler does not consult \<open>spaMode\<close>: it serves the custom error page, after
  writing the not-found code, when one is configured, and else answers a plain 404.
  When \<open>spaMode\<close> is false this is what it does for a path that does not exist.
\<close>

theorem directory_without_index_listing_disabled:
  assumes opened: "Dir_Open rt (root h) (upath_of r) = Inr f"
    and stat: "Stat f = Inr d"
    and dir: "IsDir d"
    and slash: "URL_Path r \<noteq> [] \<and> last (URL_Path r) = CHR ''/''"
    and noindex: "list_all (\<lambda>index. isl (Dir_Open rt (root h) (path_Join [upath_of r, index])))
                    (indexFiles h)"
    and disabled: "\<not> enableDirListing h"
  shows
    "ServeHTTP rt h w r =
       Inr (if errorPage404 h \<noteq> [] then
              serveFile rt h (WriteHeader w (notFoundResponseCode h))
                (filepath_Join [rootPath h, errorPage404 h])
            else NotFound w) \<and>
     ServeHTTP2 rt h w r =
       Inr (if errorPage404 h \<noteq> [] then
              serveFile2 rt h (WriteHeader w (notFoundResponseCode h))
                (filepath_Join [root h, errorPage404 h])
            else NotFound w) \<and>
     (\<forall>D. \<not> spaMode h \<and> D (root h) (upath_of r) = Inl ErrNotExist \<longrightarrow>
        ServeHTTP (rt\<lparr>Dir_Open := D\<rparr>) h w r = ServeHTTP rt h w r \<and>
        ServeHTTP2 (rt\<lparr>Dir_Open := D\<rparr>) h w r = ServeHTTP2 rt h w r)"
proof -
  note first = ServeHTTP_listing_disabled(1) [OF opened stat dir slash noindex disabled, of w]
  note second = ServeHTTP_listing_disabled(2) [OF opened stat dir slash noindex disabled, of w]
  have missing: "ServeHTTP (rt\<lparr>Dir_Open := D\<rparr>) h w r = ServeHTTP rt h w r \<and>
        ServeHTTP2 (rt\<lparr>Dir_Open := D\<rparr>) h w r = ServeHTTP2 rt h w r"
    if "\<not> spaMode h \<and> D (root h) (upath_of r) = Inl ErrNotExist" for D
  proof -
    have gone: "Dir_Open (rt\<lparr>Dir_Open := D\<rparr>) (root h) (upath_of r) = Inl ErrNotExist"
      using that by simp
    show ?thesis
      using that first second ServeHTTP_missing [OF gone, of w] ServeHTTP2_missing [OF gone, of w]
      by (simp add: serveFile_Dir_Open_update serveFile2_Dir_Open_update)
  qed
  show ?thesis
    using first second missing by blast
qed

text \<open>C2 on the example site, for \<open>/sub/\<close> with the error page \<open>404.html\<close>.\<close>

theorem directory_without_index_listing_disabled_witness:
  "ServeHTTP ex_rt (ex_handler (ex_config\<lparr>ErrorPage404 := ''404.html''\<rparr>)) fresh
     (ex_request ''/sub/'' []) =
   Inr (serveFile ex_rt (ex_handler (ex_config\<lparr>ErrorPage404 := ''404.html''\<rparr>))
          (WriteHeader fresh StatusOK) ''/srv/www/404.html'') \<and>
   ServeHTTP (ex_rt\<lparr>Dir_Open := \<lambda>rootp name. Inl ErrNotExist\<rparr>)
     (ex_handler (ex_config\<lparr>ErrorPage404 := ''404.html''\<rparr>)) fresh (ex_request ''/sub/'' []) =
   ServeHTTP ex_rt (ex_handler (ex_config\<lparr>ErrorPage404 := ''404.html''\<rparr>)) fresh
     (ex_request ''/sub/'' [])"
proof -
  let ?h = "ex_handler (ex_config\<lparr>ErrorPage404 := ''404.html''\<rparr>)"
  let ?r = "ex_request ''/sub/'' []"
  let ?f = "\<lparr>Stat = Inr (ex_info ''sub'' 4096 True), Readdir = Inr ex_sub_entries,
             Read = Inl ErrOther\<rparr>"
  let ?D = "\<lambda>(rootp :: string) (name :: string). (Inl ErrNotExist :: os_error + http_File)"
  have opened: "Dir_Open ex_rt (root ?h) (upath_of ?r) = Inr ?f"
    by (simp add: ex_defs)
  have stat: "Stat ?f = Inr (ex_info ''sub'' 4096 True)"
    by simp
  have dir: "IsDir (ex_info ''sub'' 4096 True)"
    by (simp add: ex_info_def)
  have slash: "URL_Path ?r \<noteq> [] \<and> last (URL_Path ?r) = CHR ''/''"
    by (simp add: ex_request_def)
  have noindex: "list_all (\<lambda>index. isl (Dir_Open ex_rt (root ?h) (path_Join [upath_of ?r, index])))
      (indexFiles ?h)"
    by (simp add: ex_defs)
  have disabled: "\<not> enableDirListing ?h"
    by (simp add: ex_defs)
  have gone: "\<not> spaMode ?h \<and> ?D (root ?h) (upath_of ?r) = Inl ErrNotExist"
    by (simp add: ex_defs)
  note all = directory_without_index_listing_disabled [OF opened stat dir slash noindex disabled,
      of fresh]
  have served: "ServeHTTP ex_rt ?h fresh ?r =
      Inr (serveFile ex_rt ?h (WriteHeader fresh StatusOK) ''/srv/www/404.html'')"
    using all [THEN conjunct1] by (simp add: ex_defs)
  have same: "ServeHTTP (ex_rt\<lparr>Dir_Open := ?D\<rparr>) ?h fresh ?r = ServeHTTP ex_rt ?h fresh ?r"
    using all [THEN conjunct2, THEN conjunct2, rule_format, of ?D] gone by blast
  show ?thesis
    using served same by simp
qed

text \<open>
  C2 as stated fails: with \<open>spaMode\<close> true, the directory \<open>/sub/\<close> is answered by a
  plain 404, while a path that does not exist is answered 200 with the SPA index.
\<close>

theorem spa_mode_ignored_for_directory:
  "(\<exists>w'. ServeHTTP ex_rt (ex_handler (ex_config\<lparr>SPAMode := True\<rparr>)) fresh
            (ex_request ''/sub/'' []) = Inr w' \<and>
         ServeHTTP2 ex_rt (ex_handler (ex_config\<lparr>SPAMode := True\<rparr>)) fresh
            (ex_request ''/sub/'' []) = Inr w' \<and>
         status w' = Some StatusNotFound \<and> body w' = ''404 page not found'' @ [CHR 0x0A]) \<and>
   (\<exists>w'. ServeHTTP ex_rt (ex_handler (ex_config\<lparr>SPAMode := True\<rparr>)) fresh
            (ex_request ''/nothing'' []) = Inr w' \<and>
         status w' = Some StatusOK \<and> body w' = ''hi'')"
proof (intro conjI)
  let ?h = "ex_handler (ex_config\<lparr>SPAMode := True\<rparr>)"
  let ?r = "ex_request ''/sub/'' []"
  let ?f = "\<lparr>Stat = Inr (ex_info ''sub'' 4096 True), Readdir = Inr ex_sub_entries,
             Read = Inl ErrOther\<rparr>"
  have opened: "Dir_Open ex_rt (root ?h) (upath_of ?r) = Inr ?f"
    by (simp add: ex_defs)
  have stat: "Stat ?f = Inr (ex_info ''sub'' 4096 True)"
    by simp
  have dir: "IsDir (ex_info ''sub'' 4096 True)"
    by (simp add: ex_info_def)
  have slash: "URL_Path ?r \<noteq> [] \<and> last (URL_Path ?r) = CHR ''/''"
    by (simp add: ex_request_def)
  have noindex: "list_all (\<lambda>index. isl (Dir_Open ex_rt (root ?h) (path_Join [upath_of ?r, index])))
      (indexFiles ?h)"
    by (simp add: ex_defs)
  have disabled: "\<not> enableDirListing ?h"
    by (simp add: ex_defs)
  have nopage: "errorPage404 ?h = []"
    by (simp add: ex_defs)
  have "ServeHTTP ex_rt ?h fresh ?r = Inr (NotFound fresh)"
    using ServeHTTP_listing_disabled(1) [OF opened stat dir slash noindex disabled, of fresh] nopage
    by simp
  moreover have "ServeHTTP2 ex_rt ?h fresh ?r = Inr (NotFound fresh)"
    using ServeHTTP_listing_disabled(2) [OF opened stat dir slash noindex disabled, of fresh] nopage
    by simp
  ultimately show "\<exists>w'. ServeHTTP ex_rt ?h fresh ?r = Inr w' \<and> ServeHTTP2 ex_rt ?h fresh ?r = Inr w' \<and>
         status w' = Some StatusNotFound \<and> body w' = ''404 page not found'' @ [CHR 0x0A]"
    by (simp add: NotFound_def status_Error body_Error status_fresh body_fresh)
next
  let ?h = "ex_handler (ex_config\<lparr>SPAMode := True\<rparr>)"
  let ?r = "ex_request ''/nothing'' []"
  have absent: "Dir_Open ex_rt (root ?h) (upath_of ?r) = Inl ErrNotExist"
    by (simp add: ex_defs)
  have spa: "spaMode ?h"
    by (simp add: ex_defs)
  have path: "filepath_Join [rootPath ?h, spaIndex ?h] = ''/srv/www/index.html''"
    by (simp add: ex_defs)
  have page: "os_Open ex_rt ''/srv/www/index.html'' =
      Inr \<lparr>Stat = Inr (ex_info ''index.html'' 2 False), Readdir = Inl ErrOther, Read = Inr ''hi''\<rparr>"
    by (simp add: ex_defs)
  have "ServeHTTP ex_rt ?h fresh ?r = Inr (serveFile ex_rt ?h fresh ''/srv/www/index.html'')"
    using ServeHTTP_missing [OF absent, of fresh] spa path by simp
  then show "\<exists>w'. ServeHTTP ex_rt ?h fresh ?r = Inr w' \<and> status w' = Some StatusOK \<and> body w' = ''hi''"
    using serveFile_readable [OF page, of "ex_info ''index.html'' 2 False" "''hi''" ?h fresh]
    by (simp add: status_fresh body_fresh)
qed

section \<open>The SPA fallback and the custom error page\<close>

text \<open>
  Claim C3. When \<open>spaMode\<close> is true, a request for a path that does not exist is
  answered with status 200 and the exact bytes of the file \<open>root/spaIndexFile\<close>,
  whatever the requested path is; and the answer is the same whatever error page is
  configured: the SPA fallback is chosen, not the custom error page. The file is
  taken as it is read at the time of the request.
\<close>

theorem spa_fallback_serves_index:
  assumes spa: "spaMode h"
    and missing: "Dir_Open rt (root h) (upath_of r) = Inl ErrNotExist"
    and opened: "os_Open rt (filepath_Join [rootPath h, spaIndex h]) = Inr f"
    and stat: "Stat f = Inr d"
    and content: "Read f = Inr bytes"
    and uncommitted: "status w = None"
    and empty: "body w = []"
  shows "\<exists>w'. ServeHTTP rt h w r = Inr w' \<and> status w' = Some StatusOK \<and> body w' = bytes \<and>
           (\<forall>page code.
              ServeHTTP rt (h\<lparr>errorPage404 := page, notFoundResponseCode := code\<rparr>) w r = Inr w')"
proof -
  let ?p = "filepath_Join [rootPath h, spaIndex h]"
  have served: "ServeHTTP rt h w r = Inr (serveFile rt h w ?p)"
    using ServeHTTP_missing [OF missing, of w] spa by simp
  have other: "ServeHTTP rt (h\<lparr>errorPage404 := page, notFoundResponseCode := code\<rparr>) w r
      = Inr (serveFile rt h w ?p)" for page code
  proof -
    let ?h' = "h\<lparr>errorPage404 := page, notFoundResponseCode := code\<rparr>"
    have "Dir_Open rt (root ?h') (upath_of r) = Inl ErrNotExist"
      using missing by simp
    from ServeHTTP_missing [OF this, of w] show ?thesis
      using spa by (simp add: serveFile_handler_update)
  qed
  show ?thesis
    using served other serveFile_readable [OF opened stat content, of h w] uncommitted empty
    by simp
qed

text \<open>C3 on the example site, with an error page configured as well.\<close>

theorem spa_fallback_serves_index_witness:
  "\<exists>w'. ServeHTTP ex_rt (ex_handler (ex_config\<lparr>SPAMode := True, ErrorPage404 := ''404.html''\<rparr>)) fresh
          (ex_request ''/any/deep/path.js'' ''x=1'') = Inr w' \<and>
        status w' = Some StatusOK \<and> body w' = ''hi''"
proof -
  let ?h = "ex_handler (ex_config\<lparr>SPAMode := True, ErrorPage404 := ''404.html''\<rparr>)"
  let ?r = "ex_request ''/any/deep/path.js'' ''x=1''"
  let ?f = "\<lparr>Stat = Inr (ex_info ''index.html'' 2 False), Readdir = Inl ErrOther, Read = Inr ''hi''\<rparr>"
  have spa: "spaMode ?h"
    by (simp add: ex_defs)
  have missing: "Dir_Open ex_rt (root ?h) (upath_of ?r) = Inl ErrNotExist"
    by (simp add: ex_defs)
  have opened: "os_Open ex_rt (filepath_Join [rootPath ?h, spaIndex ?h]) = Inr ?f"
    by (simp add: ex_defs)
  have stat: "Stat ?f = Inr (ex_info ''index.html'' 2 False)"
    by simp
  have content: "Read ?f = Inr ''hi''"
    by simp
  show ?thesis
    using spa_fallback_serves_index [OF spa missing opened stat content status_fresh body_fresh]
    by blast
qed

text \<open>
  Claim C4. For a handler that \<open>New\<close> built from a configuration with a non-empty
  \<open>errorPage404\<close> and \<open>spaMode\<close> false, the not-found code is fixed to 200 at
  construction, and every request for a path that does not exist is answered with
  status 200, never 404, and with the exact bytes of the configured error page as
  it is read at the time of the request.
\<close>

theorem error_page_served_with_200:
  assumes built: "New rt0 MkdirAll config = Inr h"
    and page: "ErrorPage404 config \<noteq> []"
    and nospa: "\<not> SPAMode config"
    and missing: "Dir_Open rt (root h) (upath_of r) = Inl ErrNotExist"
    and uncommitted: "status w = None"
    and empty: "body w = []"
  shows "notFoundResponseCode h = StatusOK \<and>
         (\<exists>w'. ServeHTTP rt h w r = Inr w' \<and> status w' = Some StatusOK \<and>
               status w' \<noteq> Some StatusNotFound \<and>
               (\<forall>f d bytes.
                  os_Open rt (filepath_Join [rootPath h, errorPage404 h]) = Inr f \<and>
                  Stat f = Inr d \<and> Read f = Inr bytes \<longrightarrow> body w' = bytes))"
proof -
  let ?p = "filepath_Join [rootPath h, errorPage404 h]"
  have code: "notFoundResponseCode h = StatusOK"
    using New_fields(3) [OF built] page by simp
  have "errorPage404 h \<noteq> []" and "\<not> spaMode h"
    using New_fields(1,2) [OF built] page nospa by simp_all
  then have served: "ServeHTTP rt h w r = Inr (serveFile rt h (WriteHeader w StatusOK) ?p)"
    using ServeHTTP_missing [OF missing, of w] code by simp
  have committed: "status (WriteHeader w StatusOK) = Some StatusOK"
    using uncommitted by (simp add: status_WriteHeader)
  have st: "status (serveFile rt h (WriteHeader w StatusOK) ?p) = Some StatusOK"
    using committed by (rule status_serveFile_committed)
  have bd: "body (serveFile rt h (WriteHeader w StatusOK) ?p) = bytes"
    if "os_Open rt ?p = Inr f \<and> Stat f = Inr d \<and> Read f = Inr bytes" for f d bytes
    using that serveFile_readable(2) [of rt ?p f d bytes h "WriteHeader w StatusOK"] empty
    by (simp add: body_WriteHeader)
  show ?thesis
    using code served st bd by auto
qed

text \<open>C4 on the example site, with the error page \<open>404.html\<close>.\<close>

theorem error_page_served_with_200_witness:
  "\<exists>h w'. New ex_rt (\<lambda>p. Inl ErrOther) (ex_config\<lparr>ErrorPage404 := ''404.html''\<rparr>) = Inr h \<and>
          notFoundResponseCode h = StatusOK \<and>
          ServeHTTP ex_rt h fresh (ex_request ''/non-existent.txt'' []) = Inr w' \<and>
          status w' = Some StatusOK \<and> body w' = ''<h1>gone</h1>''"
proof -
  let ?c = "ex_config\<lparr>ErrorPage404 := ''404.html''\<rparr>"
  let ?h = "ex_handler ?c"
  let ?r = "ex_request ''/non-existent.txt'' []"
  let ?f = "\<lparr>Stat = Inr (ex_info ''404.html'' 13 False), Readdir = Inl ErrOther,
             Read = Inr ''<h1>gone</h1>''\<rparr>"
  have built: "New ex_rt (\<lambda>p. Inl ErrOther) ?c = Inr ?h"
    by (simp add: New_def check_error_page_def IsNotExist_def err_of_def Let_def ex_defs)
  have page: "ErrorPage404 ?c \<noteq> []"
    by simp
  have nospa: "\<not> SPAMode ?c"
    by (simp add: ex_defs)
  have missing: "Dir_Open ex_rt (root ?h) (upath_of ?r) = Inl ErrNotExist"
    by (simp add: ex_defs)
  have opened: "os_Open ex_rt (filepath_Join [rootPath ?h, errorPage404 ?h]) = Inr ?f \<and>
      Stat ?f = Inr (ex_info ''404.html'' 13 False) \<and> Read ?f = Inr ''<h1>gone</h1>''"
    by (simp add: ex_defs)
  show ?thesis
    using error_page_served_with_200 [OF built page nospa missing status_fresh body_fresh] built opened
    by blast
qed

text \<open>
  Claim C10. With \<open>errorPage404\<close> set and \<open>spaMode\<close> false, a request for a path
  that does not exist has status 200 written before the error page is opened:
  \<open>serveFile\<close> receives a writer whose status is committed. When opening or
  examining the page then fails, the 500 of the error cannot replace the status: the
  client receives status 200 with the text of the internal error as the body.
\<close>

theorem status_committed_before_error_page_opens:
  assumes built: "New rt0 MkdirAll config = Inr h"
    and page: "ErrorPage404 config \<noteq> []"
    and nospa: "\<not> SPAMode config"
    and missing: "Dir_Open rt (root h) (upath_of r) = Inl ErrNotExist"
    and uncommitted: "status w = None"
    and fails: "isl (os_Open rt (filepath_Join [rootPath h, errorPage404 h])) \<or>
                (\<exists>f e. os_Open rt (filepath_Join [rootPath h, errorPage404 h]) = Inr f \<and>
                       Stat f = Inl e)"
  shows "ServeHTTP rt h w r =
           Inr (serveFile rt h (WriteHeader w StatusOK) (filepath_Join [rootPath h, errorPage404 h])) \<and>
         status (WriteHeader w StatusOK) = Some StatusOK \<and>
         (\<exists>w'. ServeHTTP rt h w r = Inr w' \<and> status w' = Some StatusOK \<and>
               body w' = body w @ ''Internal Server Error'' @ [CHR 0x0A])"
proof -
  let ?p = "filepath_Join [rootPath h, errorPage404 h]"
  have code: "notFoundResponseCode h = StatusOK"
    using New_fields(3) [OF built] page by simp
  have "errorPage404 h \<noteq> []" and "\<not> spaMode h"
    using New_fields(1,2) [OF built] page nospa by simp_all
  then have served: "ServeHTTP rt h w r = Inr (serveFile rt h (WriteHeader w StatusOK) ?p)"
    using ServeHTTP_missing [OF missing, of w] code by simp
  have committed: "status (WriteHeader w StatusOK) = Some StatusOK"
    using uncommitted by (simp add: status_WriteHeader)
  have "os_Open rt ?p = Inl (projl (os_Open rt ?p)) \<or> (\<exists>f e. os_Open rt ?p = Inr f \<and> Stat f = Inl e)"
    using fails by (cases "os_Open rt ?p") auto
  then have err: "serveFile rt h (WriteHeader w StatusOK) ?p =
      Error (WriteHeader w StatusOK) ''Internal Server Error'' StatusInternalServerError"
    by (rule serveFile_unreadable)
  show ?thesis
    using served committed err by (simp add: status_Error body_Error body_WriteHeader)
qed

text \<open>
  C10 on the example site: the handler is built while \<open>404.html\<close> exists, and at the
  time of the request no file may be opened.
\<close>

theorem status_committed_before_error_page_opens_witness:
  "\<exists>h w'. New ex_rt (\<lambda>p. Inl ErrOther) (ex_config\<lparr>ErrorPage404 := ''404.html''\<rparr>) = Inr h \<and>
          ServeHTTP (ex_rt\<lparr>os_Open := \<lambda>p. Inl ErrPermission\<rparr>) h fresh
            (ex_request ''/non-existent.txt'' []) = Inr w' \<and>
          status w' = Some StatusOK \<and> body w' = ''Internal Server Error'' @ [CHR 0x0A]"
proof -
  let ?c = "ex_config\<lparr>ErrorPage404 := ''404.html''\<rparr>"
  let ?h = "ex_handler ?c"
  let ?r = "ex_request ''/non-existent.txt'' []"
  let ?rt = "ex_rt\<lparr>os_Open := \<lambda>p. Inl ErrPermission\<rparr>"
  have built: "New ex_rt (\<lambda>p. Inl ErrOther) ?c = Inr ?h"
    by (simp add: New_def check_error_page_def IsNotExist_def err_of_def Let_def ex_defs)
  have page: "ErrorPage404 ?c \<noteq> []"
    by simp
  have nospa: "\<not> SPAMode ?c"
    by (simp add: ex_defs)
  have missing: "Dir_Open ?rt (root ?h) (upath_of ?r) = Inl ErrNotExist"
    by (simp add: ex_defs)
  have fails: "isl (os_Open ?rt (filepath_Join [rootPath ?h, errorPage404 ?h])) \<or>
      (\<exists>f e. os_Open ?rt (filepath_Join [rootPath ?h, errorPage404 ?h]) = Inr f \<and> Stat f = Inl e)"
    by simp
  show ?thesis
    using status_committed_before_error_page_opens [OF built page nospa missing status_fresh fails,
        THEN conjunct2, THEN conjunct2] built
    by (auto simp add: body_fresh)
qed

section \<open>Cache headers\<close>











section \<open>Joining a canonical directory path and a name\<close>

lemma split_slash_element:
  "CHR ''/'' \<notin> set s \<Longrightarrow> split_slash (s @ CHR ''/'' # rest) = s # split_slash rest"
  by (induction s) auto

lemma split_slash_single: "CHR ''/'' \<notin> set s \<Longrightarrow> split_slash s = [s]"
  by (induction s) auto

lemma split_slash_elements:
  "list_all plain_name segs \<Longrightarrow>
   split_slash (concat (map (\<lambda>s. s @ ''/'') segs) @ rest) = segs @ split_slash rest"
  by (induction segs) (auto simp add: plain_name_def split_slash_element)

lemma clean_elems_plain:
  "list_all plain_name segs \<Longrightarrow>
   clean_elems rooted out (segs @ es) = clean_elems rooted (out @ segs) es"
  by (induction segs arbitrary: out) (auto simp add: plain_name_def)

lemma join_slash_snoc:
  "join_slash (segs @ [name]) = concat (map (\<lambda>s. s @ ''/'') segs) @ name"
proof (induction segs)
  case Nil
  show ?case by simp
next
  case (Cons s segs)
  then show ?case by (cases segs) auto
qed

lemma path_Join_dir_path:
  assumes segs: "list_all plain_name segs" and name: "plain_name index"
  shows "path_Join [dir_path segs, index] = dir_path segs @ index"
proof -
  let ?body = "concat (map (\<lambda>s. s @ ''/'') segs)"
  have noslash: "CHR ''/'' \<notin> set index" and ne: "index \<noteq> []"
    and nodot: "index \<noteq> ''.''" "index \<noteq> ''..''"
    using name by (simp_all add: plain_name_def)
  have buf: "join_buf [] [dir_path segs, index] = CHR ''/'' # ?body @ CHR ''/'' # index"
    by (simp add: dir_path_def)
  have "split_slash (CHR ''/'' # ?body @ CHR ''/'' # index) = [] # segs @ [[], index]"
    using split_slash_elements [OF segs, of "CHR ''/'' # index"] split_slash_single [OF noslash]
    by simp
  moreover have "clean_elems True [] ([] # segs @ [[], index]) = segs @ [index]"
    using clean_elems_plain [OF segs, of True "[]" "[[], index]"] ne nodot by simp
  ultimately have "path_Clean (CHR ''/'' # ?body @ CHR ''/'' # index) = CHR ''/'' # ?body @ index"
    by (simp add: path_Clean_def join_slash_snoc)
  then show ?thesis
    using buf by (simp add: path_Join_def dir_path_def)
qed

section \<open>The first index file\<close>

lemma indexLoop_find:
  "indexLoop opn join upath indexes =
     map_option (\<lambda>index. join [upath, index])
       (List.find (\<lambda>index. \<not> isl (opn (join [upath, index]))) indexes)"
  by (induction indexes) (auto simp add: Let_def split: sum.split)

lemma find_first:
  "List.find P xs = Some x \<Longrightarrow>
   \<exists>before after. xs = before @ x # after \<and> list_all (\<lambda>y. \<not> P y) before \<and> P x"
proof (induction xs)
  case Nil
  then show ?case by simp
next
  case (Cons y ys)
  show ?case
  proof (cases "P y")
    case True
    with Cons.prems have "y = x" by simp
    with True have "y # ys = [] @ x # ys \<and> list_all (\<lambda>y. \<not> P y) [] \<and> P x" by simp
    then show ?thesis by blast
  next
    case False
    with Cons.prems have "List.find P ys = Some x" by simp
    from Cons.IH [OF this] obtain before after
      where "ys = before @ x # after" "list_all (\<lambda>y. \<not> P y) before" "P x" by blast
    with False have "y # ys = (y # before) @ x # after \<and> list_all (\<lambda>y. \<not> P y) (y # before) \<and> P x"
      by simp
    then show ?thesis by blast
  qed
qed

lemma find_exists: "list_ex P xs \<Longrightarrow> \<exists>x. List.find P xs = Some x"
  by (induction xs) auto

lemma ServeHTTP_index_redirect:
  assumes "Dir_Open rt (root h) (upath_of r) = Inr f" and "Stat f = Inr d" and "IsDir d"
    and "URL_Path r \<noteq> [] \<and> last (URL_Path r) = CHR ''/''"
    and "List.find (\<lambda>index. \<not> isl (Dir_Open rt (root h) (path_Join [upath_of r, index])))
           (indexFiles h) = Some index"
  shows "ServeHTTP rt h w r = Inr (localRedirect w r (path_Join [upath_of r, index]))"
    and "ServeHTTP2 rt h w r = Inr (localRedirect w r (path_Join [upath_of r, index]))"
  using assms
  by (simp_all add: ServeHTTP_def ServeHTTP2_def Let_def last_byte_differs_nonempty
        indexLoop_find filepath_Join_eq)

lemma upath_of_slash: "HasPrefix (URL_Path r) ''/'' \<Longrightarrow> upath_of r = URL_Path r"
  by (simp add: upath_of_def)

text \<open>
  Claim C7. A request for a directory, with a trailing slash, in which at least one
  configured index file opens is answered by a 301 redirect to the directory's path
  joined with the first entry of \<open>indexFiles\<close>, in configured order, that opens under
  the directory; every entry before it fails to open, so it is never a later one.
  The join is \<open>path.Join\<close>, which for a request path in canonical form and a plain
  file name is the request path followed by the name; the query string, when there
  is one, follows as in every redirect.
\<close>

theorem first_index_file_redirect:
  assumes opened: "Dir_Open rt (root h) (upath_of r) = Inr f"
    and stat: "Stat f = Inr d"
    and dir: "IsDir d"
    and slash: "URL_Path r \<noteq> [] \<and> last (URL_Path r) = CHR ''/''"
    and some: "list_ex (\<lambda>index. \<not> isl (Dir_Open rt (root h) (path_Join [upath_of r, index])))
                 (indexFiles h)"
    and uncommitted: "status w = None"
  shows
    "\<exists>index before after w'.
       List.find (\<lambda>index. \<not> isl (Dir_Open rt (root h) (path_Join [upath_of r, index])))
         (indexFiles h) = Some index \<and>
       indexFiles h = before @ index # after \<and>
       list_all (\<lambda>i. isl (Dir_Open rt (root h) (path_Join [upath_of r, i]))) before \<and>
       \<not> isl (Dir_Open rt (root h) (path_Join [upath_of r, index])) \<and>
       ServeHTTP rt h w r = Inr w' \<and> ServeHTTP2 rt h w r = Inr w' \<and>
       status w' = Some StatusMovedPermanently \<and>
       header w' ''Location'' =
         Some (path_Join [upath_of r, index] @
               (if URL_RawQuery r = [] then [] else ''?'' @ URL_RawQuery r)) \<and>
       (\<forall>segs. URL_Path r = dir_path segs \<and> list_all plain_name segs \<and> plain_name index \<longrightarrow>
          path_Join [upath_of r, index] = URL_Path r @ index)"
proof -
  let ?opens = "\<lambda>index. \<not> isl (Dir_Open rt (root h) (path_Join [upath_of r, index]))"
  obtain index where found: "List.find ?opens (indexFiles h) = Some index"
    using find_exists [OF some] by blast
  from find_first [OF this] obtain before after
    where split: "indexFiles h = before @ index # after"
      and earlier: "list_all (\<lambda>i. isl (Dir_Open rt (root h) (path_Join [upath_of r, i]))) before"
      and opens: "?opens index"
    by auto
  let ?w = "localRedirect w r (path_Join [upath_of r, index])"
  have run: "ServeHTTP rt h w r = Inr ?w" "ServeHTTP2 rt h w r = Inr ?w"
    using ServeHTTP_index_redirect [OF opened stat dir slash found] by simp_all
  have canonical: "path_Join [upath_of r, index] = URL_Path r @ index"
    if "URL_Path r = dir_path segs \<and> list_all plain_name segs \<and> plain_name index" for segs
  proof -
    have "upath_of r = dir_path segs"
      using that by (simp add: upath_of_def HasPrefix_def dir_path_def)
    then show ?thesis
      using that path_Join_dir_path [of segs index] by simp
  qed
  have "status ?w = Some StatusMovedPermanently"
    using uncommitted by (simp add: status_localRedirect)
  then show ?thesis
    using found split earlier opens run canonical Location_localRedirect [of w r]
    by blast
qed

text \<open>
  C7 on the example site: of \<open>home.html\<close>, \<open>index.html\<close> and \<open>index.htm\<close> the
  directory \<open>docs\<close> has the last two, and the redirect goes to \<open>index.html\<close>.
\<close>

theorem first_index_file_redirect_witness:
  "\<exists>w'. ServeHTTP ex_rt
          (ex_handler (ex_config\<lparr>IndexFiles := [''home.html'', ''index.html'', ''index.htm'']\<rparr>))
          fresh (ex_request ''/docs/'' ''x=1'') = Inr w' \<and>
        status w' = Some StatusMovedPermanently \<and>
        header w' ''Location'' = Some ''/docs/index.html?x=1''"
proof -
  let ?h = "ex_handler (ex_config\<lparr>IndexFiles := [''home.html'', ''index.html'', ''index.htm'']\<rparr>)"
  let ?r = "ex_request ''/docs/'' ''x=1''"
  let ?d = "ex_info ''docs'' 4096 True"
  let ?f = "\<lparr>Stat = Inr ?d, Readdir = Inr [], Read = Inl ErrOther\<rparr>"
  let ?opens = "\<lambda>index. \<not> isl (Dir_Open ex_rt (root ?h) (path_Join [upath_of ?r, index]))"
  have opened: "Dir_Open ex_rt (root ?h) (upath_of ?r) = Inr ?f"
    by (simp add: ex_defs)
  have stat: "Stat ?f = Inr ?d"
    by simp
  have dir: "IsDir ?d"
    by (simp add: ex_info_def)
  have slash: "URL_Path ?r \<noteq> [] \<and> last (URL_Path ?r) = CHR ''/''"
    by (simp add: ex_request_def)
  have found: "List.find ?opens (indexFiles ?h) = Some ''index.html''"
    by (simp add: ex_defs)
  have some: "list_ex ?opens (indexFiles ?h)"
    by (simp add: ex_defs)
  have canonical: "URL_Path ?r = dir_path [''docs''] \<and> list_all plain_name [''docs''] \<and>
      plain_name ''index.html''"
    by (simp add: ex_request_def dir_path_def plain_name_def)
  from first_index_file_redirect [OF opened stat dir slash some status_fresh]
  obtain index w' where first: "List.find ?opens (indexFiles ?h) = Some index"
    and run: "ServeHTTP ex_rt ?h fresh ?r = Inr w'"
    and moved: "status w' = Some StatusMovedPermanently"
    and location: "header w' ''Location'' =
        Some (path_Join [upath_of ?r, index] @
              (if URL_RawQuery ?r = [] then [] else ''?'' @ URL_RawQuery ?r))"
    and joined: "\<forall>segs. URL_Path ?r = dir_path segs \<and> list_all plain_name segs \<and> plain_name index \<longrightarrow>
        path_Join [upath_of ?r, index] = URL_Path ?r @ index"
    by blast
  have index: "index = ''index.html''"
    using first found by simp
  have "path_Join [upath_of ?r, index] = URL_Path ?r @ index"
    using joined canonical index by blast
  then have "header w' ''Location'' = Some ''/docs/index.html?x=1''"
    using location index by (simp add: ex_request_def)
  then show ?thesis
    using run moved by blast
qed

section \<open>Sorting the entries\<close>

lemma mset_insert_less: "mset (insert_less lt x xs) = add_mset x (mset xs)"
  by (induction xs) auto

lemma mset_sort_Slice: "mset (sort_Slice lt xs) = mset xs"
  by (induction xs) (auto simp add: sort_Slice_def mset_insert_less)

lemma set_insert_less: "set (insert_less lt x xs) = insert x (set xs)"
  by (induction xs) auto

lemma set_sort_Slice: "set (sort_Slice lt xs) = set xs"
  using mset_sort_Slice [of lt xs] by (metis set_mset_mset)

text \<open>\<open>b\<close> may stand after \<open>a\<close>: \<open>b\<close> is not less than \<open>a\<close>.\<close>

lemma not_dirs_less:
  "(\<not> dirs_less b a) = ((IsDir b \<longrightarrow> IsDir a) \<and> (IsDir a = IsDir b \<longrightarrow> Name a \<le> Name b))"
  by (auto simp add: dirs_less_def)

lemma dirs_less_asym: "dirs_less a b \<Longrightarrow> \<not> dirs_less b a"
  by (auto simp add: dirs_less_def split: if_splits)

lemma not_dirs_less_trans: "\<not> dirs_less b a \<Longrightarrow> \<not> dirs_less c b \<Longrightarrow> \<not> dirs_less c a"
  by (auto simp add: not_dirs_less)

lemma sorted_insert_less:
  "sorted_wrt (\<lambda>a b. \<not> dirs_less b a) xs \<Longrightarrow>
   sorted_wrt (\<lambda>a b. \<not> dirs_less b a) (insert_less dirs_less x xs)"
proof (induction xs)
  case Nil
  show ?case by simp
next
  case (Cons y ys)
  show ?case
  proof (cases "dirs_less x y")
    case True
    then have "\<not> dirs_less y x" by (rule dirs_less_asym)
    moreover have "\<not> dirs_less z x" if "z \<in> set ys" for z
      using that Cons.prems \<open>\<not> dirs_less y x\<close> not_dirs_less_trans [of y x z] by auto
    ultimately show ?thesis
      using True Cons.prems by auto
  next
    case False
    then show ?thesis
      using Cons by (auto simp add: set_insert_less)
  qed
qed

lemma sorted_sort_Slice: "sorted_wrt (\<lambda>a b. \<not> dirs_less b a) (sort_Slice dirs_less xs)"
  by (induction xs) (auto simp add: sort_Slice_def sorted_insert_less)

lemma sort_Slice_order:
  "sorted_wrt (\<lambda>a b. (IsDir b \<longrightarrow> IsDir a) \<and> (IsDir a = IsDir b \<longrightarrow> Name a \<le> Name b))
     (sort_Slice dirs_less xs)"
  using sorted_sort_Slice [of xs] by (simp add: not_dirs_less)

section \<open>The attributes of the rendered listing\<close>

lemma scan_quoted_skip:
  "CHR 0x22 \<notin> set s \<Longrightarrow> scan_quoted None (s @ rest) = scan_quoted None rest"
  by (induction s) auto

lemma scan_quoted_value:
  "CHR 0x22 \<notin> set v \<Longrightarrow>
   scan_quoted (Some acc) (v @ CHR 0x22 # rest) = (rev acc @ v) # scan_quoted None rest"
  by (induction v arbitrary: acc) auto

lemma scan_tmpl_title:
  "scan_quoted None (tmpl_title @ rest) = ''utf-8'' # scan_quoted None rest"
  by (simp add: tmpl_title_def)

lemma scan_tmpl_style: "scan_quoted None (tmpl_style @ rest) = scan_quoted None rest"
  by (rule scan_quoted_skip) (simp add: tmpl_style_def)

lemma scan_tmpl_table: "scan_quoted None (tmpl_table @ rest) = scan_quoted None rest"
  by (rule scan_quoted_skip) (simp add: tmpl_table_def)

lemma scan_tmpl_parent:
  "scan_quoted None (tmpl_parent @ rest) = ''../'' # scan_quoted None rest"
  by (simp add: tmpl_parent_def)

lemma scan_tmpl_before_range: "scan_quoted None (tmpl_before_range @ rest) = scan_quoted None rest"
  by (rule scan_quoted_skip) (simp add: tmpl_before_range_def)

lemma scan_tmpl_tail: "scan_quoted None tmpl_tail = []"
  by (simp add: tmpl_tail_def)


lemma scan_tmpl_row:
  assumes quote_free: "\<forall>s. CHR 0x22 \<notin> set (htmlescaper rt s) \<and> CHR 0x22 \<notin> set (urlattrescaper rt s)"
  shows "scan_quoted None (tmpl_row rt (to_dirEntry d) @ rest) = entry_href rt d # scan_quoted None rest"
proof -
  let ?cells = "htmlescaper rt (Name d) @ (if IsDir d then ''/'' else []) @ tmpl_row_size @
     (if IsDir d then ''-'' else htmlescaper rt (appendInt (Size d) 0) @ '' bytes'') @
     tmpl_row_time @ htmlescaper rt (Format_listing (Local rt (ModTime d)) (ModTime d)) @
     tmpl_row_close"
  have row: "tmpl_row rt (to_dirEntry d) @ rest =
      tmpl_row_open @ entry_href rt d @ CHR 0x22 # (CHR ''>'' # ?cells) @ rest"
    by (simp add: tmpl_row_def to_dirEntry_def entry_href_def tmpl_row_href_end_def)
  have href: "CHR 0x22 \<notin> set (entry_href rt d)"
    using quote_free by (simp add: entry_href_def)
  have cells: "CHR 0x22 \<notin> set (CHR ''>'' # ?cells)"
    using quote_free by (simp add: tmpl_row_size_def tmpl_row_time_def tmpl_row_close_def)
  have "scan_quoted None (tmpl_row_open @ entry_href rt d @ CHR 0x22 # (CHR ''>'' # ?cells) @ rest) =
      scan_quoted (Some []) (entry_href rt d @ CHR 0x22 # (CHR ''>'' # ?cells) @ rest)"
    by (simp add: tmpl_row_open_def)
  also have "\<dots> = entry_href rt d # scan_quoted None ((CHR ''>'' # ?cells) @ rest)"
    using scan_quoted_value [OF href, of "[]"] by simp
  also have "\<dots> = entry_href rt d # scan_quoted None rest"
    using scan_quoted_skip [OF cells] by simp
  finally show ?thesis
    using row by simp
qed

lemma scan_tmpl_rows:
  assumes "\<forall>s. CHR 0x22 \<notin> set (htmlescaper rt s) \<and> CHR 0x22 \<notin> set (urlattrescaper rt s)"
  shows "scan_quoted None (concat (map (tmpl_row rt) (map to_dirEntry ds)) @ rest) =
           map (entry_href rt) ds @ scan_quoted None rest"
  by (induction ds) (simp_all add: scan_tmpl_row [OF assms])

lemma attribute_values_tmpl_Execute:
  assumes quote_free:
    "\<forall>s. CHR 0x22 \<notin> set (rcdataescaper rt s) \<and> CHR 0x22 \<notin> set (htmlescaper rt s) \<and>
         CHR 0x22 \<notin> set (urlattrescaper rt s)"
  shows "attribute_values (tmpl_Execute rt path (map to_dirEntry ds)) =
           ''utf-8'' # (if path \<noteq> ''/'' then [''../''] else []) @ map (entry_href rt) ds"
proof -
  have esc: "\<forall>s. CHR 0x22 \<notin> set (htmlescaper rt s) \<and> CHR 0x22 \<notin> set (urlattrescaper rt s)"
    using quote_free by simp
  have rc: "CHR 0x22 \<notin> set (rcdataescaper rt path)" and ht: "CHR 0x22 \<notin> set (htmlescaper rt path)"
    using quote_free by simp_all
  let ?rows = "concat (map (tmpl_row rt) (map to_dirEntry ds)) @ tmpl_tail"
  have rows: "scan_quoted None ?rows = map (entry_href rt) ds"
    using scan_tmpl_rows [OF esc, of ds tmpl_tail] by (simp add: scan_tmpl_tail)
  have parent: "scan_quoted None ((if path \<noteq> ''/'' then tmpl_parent else []) @ tmpl_before_range @ ?rows) =
      (if path \<noteq> ''/'' then [''../''] else []) @ map (entry_href rt) ds"
    using rows by (simp add: scan_tmpl_parent scan_tmpl_before_range)
  have "scan_quoted None (tmpl_Execute rt path (map to_dirEntry ds)) =
      ''utf-8'' # scan_quoted None (rcdataescaper rt path @ tmpl_style @ htmlescaper rt path @
         tmpl_table @ (if path \<noteq> ''/'' then tmpl_parent else []) @ tmpl_before_range @ ?rows)"
    using scan_tmpl_title by (simp add: tmpl_Execute_def)
  also have "\<dots> = ''utf-8'' # scan_quoted None ((if path \<noteq> ''/'' then tmpl_parent else []) @
         tmpl_before_range @ ?rows)"
    using scan_quoted_skip [OF rc] scan_quoted_skip [OF ht] scan_tmpl_style scan_tmpl_table
    by simp
  finally show ?thesis
    using parent by (simp add: attribute_values_def)
qed

text \<open>No entry of a directory links to its parent.\<close>

lemma entry_href_not_parent:
  assumes name: "plain_name (Name d)"
    and dots: "\<forall>s. urlattrescaper rt s = ''..'' \<longrightarrow> s = ''..''"
    and slashes: "\<forall>s. CHR ''/'' \<in> set (urlattrescaper rt s) \<longrightarrow> CHR ''/'' \<in> set s"
  shows "entry_href rt d \<noteq> ''../''"
proof
  assume parent: "entry_href rt d = ''../''"
  show False
  proof (cases "IsDir d")
    case True
    with parent have "urlattrescaper rt (Name d) = ''..''"
      by (simp add: entry_href_def append_eq_Cons_conv Cons_eq_append_conv)
    with dots have "Name d = ''..''" by blast
    with name show False by (simp add: plain_name_def)
  next
    case False
    with parent have "CHR ''/'' \<in> set (urlattrescaper rt (Name d))"
      by (simp add: entry_href_def)
    with slashes have "CHR ''/'' \<in> set (Name d)" by blast
    with name show False by (simp add: plain_name_def)
  qed
qed

lemma body_serveDirectoryListing:
  "Readdir f = Inr dirs \<Longrightarrow>
   body (serveDirectoryListing rt w r f) =
     body w @ tmpl_Execute rt (URL_Path r) (map to_dirEntry (sort_Slice dirs_less dirs))"
  by (simp add: serveDirectoryListing_def Let_def writer_simps)

lemma status_serveDirectoryListing:
  "Readdir f = Inr dirs \<Longrightarrow> status w = None \<Longrightarrow>
   status (serveDirectoryListing rt w r f) = Some StatusOK"
  by (simp add: serveDirectoryListing_def Let_def writer_simps)

text \<open>
  Claim C9. In every directory listing rendered, the entries are a rearrangement of
  what \<open>Readdir\<close> returned, with all directories before all files and in
  lexicographic order of the names within each group; the links of the rendered page
  are those of the entries in that order; and the page has a link to the parent
  directory exactly when the request path is not the root \<open>/\<close>. The entries have the
  names of directory entries, and of the escapers of \<open>html/template\<close> it is used
  that they write no double quote, and that the escaper for URLs writes \<open>..\<close> for no
  other name and adds no slash.
\<close>

theorem directory_listing_order_and_parent_link:
  assumes readdir: "Readdir f = Inr dirs"
    and names: "list_all (\<lambda>d. plain_name (Name d)) dirs"
    and quote_free:
      "\<forall>s. CHR 0x22 \<notin> set (rcdataescaper rt s) \<and> CHR 0x22 \<notin> set (htmlescaper rt s) \<and>
           CHR 0x22 \<notin> set (urlattrescaper rt s)"
    and dots: "\<forall>s. urlattrescaper rt s = ''..'' \<longrightarrow> s = ''..''"
    and slashes: "\<forall>s. CHR ''/'' \<in> set (urlattrescaper rt s) \<longrightarrow> CHR ''/'' \<in> set s"
    and uncommitted: "status w = None"
    and empty: "body w = []"
  shows
    "mset (sort_Slice dirs_less dirs) = mset dirs \<and>
     sorted_wrt (\<lambda>a b. (IsDir b \<longrightarrow> IsDir a) \<and> (IsDir a = IsDir b \<longrightarrow> Name a \<le> Name b))
       (sort_Slice dirs_less dirs) \<and>
     status (serveDirectoryListing rt w r f) = Some StatusOK \<and>
     attribute_values (body (serveDirectoryListing rt w r f)) =
       ''utf-8'' # (if URL_Path r \<noteq> ''/'' then [''../''] else []) @
       map (entry_href rt) (sort_Slice dirs_less dirs) \<and>
     (''../'' \<in> set (attribute_values (body (serveDirectoryListing rt w r f))) \<longleftrightarrow>
        URL_Path r \<noteq> ''/'')"
proof -
  let ?sorted = "sort_Slice dirs_less dirs"
  have attrs: "attribute_values (body (serveDirectoryListing rt w r f)) =
      ''utf-8'' # (if URL_Path r \<noteq> ''/'' then [''../''] else []) @ map (entry_href rt) ?sorted"
    using body_serveDirectoryListing [OF readdir, of rt w r] empty
      attribute_values_tmpl_Execute [OF quote_free, of "URL_Path r" ?sorted]
    by simp
  have "entry_href rt d \<noteq> ''../''" if "d \<in> set ?sorted" for d
  proof -
    have "d \<in> set dirs"
      using that by (simp add: set_sort_Slice)
    then have "plain_name (Name d)"
      using names by (simp add: list_all_iff)
    then show ?thesis
      using dots slashes by (rule entry_href_not_parent)
  qed
  then have none: "''../'' \<notin> set (map (entry_href rt) ?sorted)"
    by (metis (no_types, lifting) imageE list.set_map)
  have link: "''../'' \<in> set (attribute_values (body (serveDirectoryListing rt w r f))) \<longleftrightarrow>
      URL_Path r \<noteq> ''/''"
    unfolding attrs using none by simp
  show ?thesis
    using mset_sort_Slice [of dirs_less dirs] sort_Slice_order [of dirs]
      status_serveDirectoryListing [OF readdir uncommitted] attrs link
    by blast
qed


section \<open>The listing of the example site\<close>

text \<open>The first copy renders the listing when it is enabled and no index file opens.\<close>

lemma ServeHTTP_listing_enabled:
  assumes "Dir_Open rt (root h) (upath_of r) = Inr f" and "Stat f = Inr d" and "IsDir d"
    and "URL_Path r \<noteq> [] \<and> last (URL_Path r) = CHR ''/''"
    and "list_all (\<lambda>index. isl (Dir_Open rt (root h) (path_Join [upath_of r, index])))
           (indexFiles h)"
    and "enableDirListing h"
  shows "ServeHTTP rt h w r = Inr (serveDirectoryListing rt w r f)"
  using assms indexLoop_None [of "Dir_Open rt (root h)" path_Join "upath_of r" "indexFiles h"]
  by (simp add: ServeHTTP_def Let_def last_byte_differs_nonempty)

lemma ex_escape_quote_free: "CHR 0x22 \<notin> set (ex_escape s)"
  by (induction s) (auto simp add: ex_escape_def ex_escape_char_def)

lemma ex_escape_slash: "CHR ''/'' \<in> set (ex_escape s) \<Longrightarrow> CHR ''/'' \<in> set s"
  by (induction s) (auto simp add: ex_escape_def ex_escape_char_def split: if_splits)

lemma ex_escape_char_dot:
  "ex_escape_char c @ rest = CHR ''.'' # rest' \<Longrightarrow> c = CHR ''.'' \<and> rest = rest'"
  by (auto simp add: ex_escape_char_def split: if_splits)

lemma ex_escape_empty: "ex_escape s = [] \<Longrightarrow> s = []"
  by (cases s) (auto simp add: ex_escape_def ex_escape_char_def split: if_splits)

lemma ex_escape_dots: "ex_escape s = ''..'' \<Longrightarrow> s = ''..''"
proof -
  assume dots: "ex_escape s = ''..''"
  then obtain a t where s: "s = a # t"
    by (cases s) (auto simp add: ex_escape_def)
  with dots have "ex_escape_char a @ ex_escape t = CHR ''.'' # ''.''"
    by (simp add: ex_escape_def)
  then have a: "a = CHR ''.''" and t: "ex_escape t = ''.''"
    using ex_escape_char_dot by blast+
  from t obtain b u where tu: "t = b # u"
    by (cases t) (auto simp add: ex_escape_def)
  with t have "ex_escape_char b @ ex_escape u = CHR ''.'' # []"
    by (simp add: ex_escape_def)
  then have b: "b = CHR ''.''" and u: "ex_escape u = []"
    using ex_escape_char_dot by blast+
  from u have "u = []" by (rule ex_escape_empty)
  with s a tu b show ?thesis by simp
qed

lemma ex_sub_sorted:
  "sort_Slice dirs_less ex_sub_entries =
     [ex_info ''alpha'' 4096 True, ex_info ''zeta'' 4096 True, ex_info ''a.txt'' 3 False,
      ex_info ''b.txt'' 5 False]"
  by (simp add: sort_Slice_def ex_sub_entries_def dirs_less_def ex_info_def)

text \<open>
  C9 on the example site: the listing of \<open>/sub/\<close> links to the parent, then to the
  directories \<open>alpha\<close> and \<open>zeta\<close>, then to the files \<open>a.txt\<close> and \<open>b.txt\<close>; the same
  entries listed for \<open>/\<close> have no link to a parent.
\<close>

theorem directory_listing_order_and_parent_link_witness:
  "(\<exists>w'. ServeHTTP ex_rt (ex_handler (ex_config\<lparr>EnableDirectoryListing := True\<rparr>)) fresh
           (ex_request ''/sub/'' []) = Inr w' \<and>
         attribute_values (body w') = [''utf-8'', ''../'', ''alpha/'', ''zeta/'', ''a.txt'', ''b.txt'']) \<and>
   ''../'' \<notin> set (attribute_values (body (serveDirectoryListing ex_rt fresh (ex_request ''/'' [])
      \<lparr>Stat = Inr (ex_info ''/'' 4096 True), Readdir = Inr ex_sub_entries, Read = Inl ErrOther\<rparr>)))"
proof -
  let ?h = "ex_handler (ex_config\<lparr>EnableDirectoryListing := True\<rparr>)"
  let ?r = "ex_request ''/sub/'' []"
  let ?d = "ex_info ''sub'' 4096 True"
  let ?f = "\<lparr>Stat = Inr ?d, Readdir = Inr ex_sub_entries, Read = Inl ErrOther\<rparr>"
  let ?g = "\<lparr>Stat = Inr (ex_info ''/'' 4096 True), Readdir = Inr ex_sub_entries, Read = Inl ErrOther\<rparr>"
  have opened: "Dir_Open ex_rt (root ?h) (upath_of ?r) = Inr ?f"
    by (simp add: ex_defs)
  have stat: "Stat ?f = Inr ?d"
    by simp
  have dir: "IsDir ?d"
    by (simp add: ex_info_def)
  have slash: "URL_Path ?r \<noteq> [] \<and> last (URL_Path ?r) = CHR ''/''"
    by (simp add: ex_request_def)
  have noindex: "list_all (\<lambda>index. isl (Dir_Open ex_rt (root ?h) (path_Join [upath_of ?r, index])))
      (indexFiles ?h)"
    by (simp add: ex_defs)
  have enabled: "enableDirListing ?h"
    by (simp add: ex_defs)
  have run: "ServeHTTP ex_rt ?h fresh ?r = Inr (serveDirectoryListing ex_rt fresh ?r ?f)"
    using opened stat dir slash noindex enabled by (rule ServeHTTP_listing_enabled)
  have readdir: "Readdir ?f = Inr ex_sub_entries" "Readdir ?g = Inr ex_sub_entries"
    by simp_all
  have names: "list_all (\<lambda>d. plain_name (Name d)) ex_sub_entries"
    by (simp add: ex_sub_entries_def ex_info_def plain_name_def)
  have quote_free: "\<forall>s. CHR 0x22 \<notin> set (rcdataescaper ex_rt s) \<and>
      CHR 0x22 \<notin> set (htmlescaper ex_rt s) \<and> CHR 0x22 \<notin> set (urlattrescaper ex_rt s)"
    by (simp add: ex_rt_def ex_escape_quote_free)
  have dots: "\<forall>s. urlattrescaper ex_rt s = ''..'' \<longrightarrow> s = ''..''"
    using ex_escape_dots by (simp add: ex_rt_def)
  have slashes: "\<forall>s. CHR ''/'' \<in> set (urlattrescaper ex_rt s) \<longrightarrow> CHR ''/'' \<in> set s"
    using ex_escape_slash by (simp add: ex_rt_def)
  have hrefs: "map (entry_href ex_rt) (sort_Slice dirs_less ex_sub_entries) =
      [''alpha/'', ''zeta/'', ''a.txt'', ''b.txt'']"
    by (simp add: ex_sub_sorted entry_href_def ex_info_def ex_rt_def ex_escape_def ex_escape_char_def)
  have sub: "attribute_values (body (serveDirectoryListing ex_rt fresh ?r ?f)) =
      [''utf-8'', ''../'', ''alpha/'', ''zeta/'', ''a.txt'', ''b.txt'']"
    using directory_listing_order_and_parent_link [OF readdir(1) names quote_free dots slashes
        status_fresh body_fresh, of ?r] hrefs
    by (simp add: ex_request_def)
  have top: "''../'' \<notin> set (attribute_values (body (serveDirectoryListing ex_rt fresh
      (ex_request ''/'' []) ?g)))"
  proof -
    have "''../'' \<in> set (attribute_values (body (serveDirectoryListing ex_rt fresh
        (ex_request ''/'' []) ?g))) \<longleftrightarrow> URL_Path (ex_request ''/'' []) \<noteq> ''/''"
      using directory_listing_order_and_parent_link [OF readdir(2) names quote_free dots slashes
          status_fresh body_fresh, of "ex_request ''/'' []"]
      by blast
    then show ?thesis
      by (simp add: ex_request_def)
  qed
  show ?thesis
    using run sub top by simp
qed

end
